theory Spec2Isabelle
  imports Main
begin

section \<open>JavaScript values\<close>

text \<open>
  The payloads on the channel are JSON values. A JavaScript expression that may evaluate
  to \<^verbatim>\<open>undefined\<close> is a \<open>json option\<close>, with \<open>None\<close> for \<^verbatim>\<open>undefined\<close>.
  Only integral numbers are represented: nothing below depends on a number except
  that \<open>0\<close> is falsy. An object is the list of its members, read with \<open>map_of\<close>.
\<close>

datatype json =
    JNull
  | JBool bool
  | JNum int
  | JStr string
  | JArr "json list"
  | JObj "(string \<times> json) list"

datatype js_error = SyntaxError | TypeError

text \<open>The truth value JavaScript gives a value in \<^verbatim>\<open>!v\<close> and \<^verbatim>\<open>if (v)\<close>.\<close>

fun truthy :: "json option \<Rightarrow> bool" where
  "truthy None = False"
| "truthy (Some JNull) = False"
| "truthy (Some (JBool b)) = b"
| "truthy (Some (JNum n)) = (n \<noteq> 0)"
| "truthy (Some (JStr s)) = (s \<noteq> [])"
| "truthy (Some (JArr xs)) = True"
| "truthy (Some (JObj kvs)) = True"

text \<open>
  The property read \<^verbatim>\<open>data.msgtype\<close> on a decoded payload: reading a property of
  \<^verbatim>\<open>null\<close> throws a TypeError, an object yields the member or \<^verbatim>\<open>undefined\<close>, and
  a boolean, number, string or array has no property of that name.
\<close>

fun get_msgtype :: "json \<Rightarrow> js_error + json option" where
  "get_msgtype JNull = Inl TypeError"
| "get_msgtype (JObj kvs) = Inr (map_of kvs ''msgtype'')"
| "get_msgtype (JBool b) = Inr None"
| "get_msgtype (JNum n) = Inr None"
| "get_msgtype (JStr s) = Inr None"
| "get_msgtype (JArr xs) = Inr None"

section \<open>The notebook, the store and the kernel as the monitor sees them\<close>

text \<open>
  \<^verbatim>\<open>ICellModel\<close>: the monitor reads \<^verbatim>\<open>id\<close> and \<^verbatim>\<open>type\<close> and compares models by
  reference (\<^verbatim>\<open>widget.model === cellModel\<close>); \<open>obj\<close> is the identity of the object.
\<close>

record cellModel =
  obj :: nat
  cellId :: string
  cellType :: string

text \<open>
  A widget inside a layout: its CSS classes and, for a widget made by
  \<^verbatim>\<open>ReactWidget.create(React.createElement(CellWidget, {notebookId, cellId}))\<close>, the two
  properties of the element.
\<close>

record lwidget =
  classes :: "string list"
  element :: "(string \<times> string) option"

definition hasClass :: "lwidget \<Rightarrow> string \<Rightarrow> bool" where
  "hasClass w c = (c \<in> set (classes w))"

text \<open>
  A cell of the notebook (\<^verbatim>\<open>notebookPanel.content.widgets\<close>): its model, whether
  \<^verbatim>\<open>node.querySelector('.sparkMonitorCellRoot')\<close> finds an element, the widgets of
  \<^verbatim>\<open>codeCell.layout\<close>, and the widgets of \<^verbatim>\<open>codeCell.outputArea.layout\<close>
  (\<open>None\<close> when the cell has no output area). The root element is rendered by the
  \<^verbatim>\<open>CellWidget\<close> component, which is not among the sources, some time after the widget
  is inserted: an insertion does not change \<open>hasSparkRoot\<close>, the notebook does.
\<close>

record cell =
  model :: cellModel
  hasSparkRoot :: bool
  layout :: "lwidget list"
  outputArea :: "lwidget list option"

text \<open>The calls on the store (\<^verbatim>\<open>notebookStore\<close>), which is the sink of the events.\<close>

datatype store_call =
    OnCellExecutedAgain string
  | OnSparkJobStart string json
  | OnSparkStageSubmitted string json
  | OnSparkJobEnd json
  | OnSparkStageCompleted json
  | OnSparkStageActive json
  | OnSparkTaskStart json
  | OnSparkTaskEnd json
  | OnSparkApplicationStart json
  | OnSparkExecutorAdded json
  | OnSparkExecutorRemoved json
  | OnCellRemoved string
  | ToggleHideAllDisplays

text \<open>
  Every call the monitor makes on something outside itself, in the order it makes them.
  \<open>InsertWidget cid i\<close> is \<^verbatim>\<open>insertWidget(i, widget)\<close> on the layout of the cell \<open>cid\<close>
  and \<open>CellUpdate cid\<close> is \<^verbatim>\<open>codeCell.update()\<close>; the three comm effects carry the
  handle of the comm object.
\<close>

datatype effect =
    ConsoleWarn string
  | ConsoleLog string
  | Store store_call
  | InsertWidget string int
  | CellUpdate string
  | CreateComm string
  | ConnectToComm string
  | CommOpen nat json
  | SetOnMsg nat
  | SetOnClose nat
  | Rejected js_error

text \<open>
  \<^verbatim>\<open>IKernelConnection\<close>: whether it has a \<^verbatim>\<open>createComm\<close> member, whether the call
  that makes the comm returns an object, and the handle of the next object it makes.
\<close>

record kernel =
  hasCreateComm :: bool
  suppliesComm :: bool
  nextComm :: nat

text \<open>
  The state: the fields of \<^verbatim>\<open>JupyterLabSparkMonitor\<close>, the tracker, the notebook panel
  and the trace of effects. The class in \<^verbatim>\<open>src/unnamed/part_000\<close> has no
  \<^verbatim>\<open>cellWidgetMap\<close>; its functions neither read nor write that field.

  Modelled from the spec: \<^verbatim>\<open>CurrentCellTracker\<close> (\<^verbatim>\<open>./current-cell\<close>) is not among
  the sources. Its state is the active cell (\<open>None\<close> when no cell is running), the
  execution counter, the re-execution flag and whether \<^verbatim>\<open>ready()\<close> has resolved;
  \<^verbatim>\<open>getActiveCell()\<close> and \<^verbatim>\<open>getNumCellsExecuted()\<close> return the first two without
  side effects. \<open>pendingReady\<close> counts the continuations of \<^verbatim>\<open>ready().then(...)\<close>
  that wait for the tracker.
\<close>

record monitor =
  cellExecCountSinceSparkJobStart :: nat
  cellWidgetMap :: "string \<rightharpoonup> bool"
  comm :: "nat option"
  kernel :: "kernel option"
  activeCell :: "cell option"
  numCellsExecuted :: nat
  cellReexecuted :: bool
  trackerReady :: bool
  pendingReady :: nat
  panelId :: string
  widgets :: "cell list"
  trace :: "effect list"

definition emit :: "effect list \<Rightarrow> monitor \<Rightarrow> monitor" where
  "emit es s = s\<lparr>trace := trace s @ es\<rparr>"

definition sink_calls :: "effect list \<Rightarrow> store_call list" where
  "sink_calls tr = concat (map (\<lambda>e. case e of Store c \<Rightarrow> [c] | _ \<Rightarrow> []) tr)"

definition surfaces_created :: "effect list \<Rightarrow> nat" where
  "surfaces_created tr = length (filter (\<lambda>e. case e of InsertWidget c i \<Rightarrow> True | _ \<Rightarrow> False) tr)"

section \<open>Library operations on arrays and layouts\<close>

text \<open>\<^verbatim>\<open>Array.prototype.findIndex\<close>: the index of the first match, \<open>-1\<close> without one.\<close>

fun findIndex :: "('a \<Rightarrow> bool) \<Rightarrow> 'a list \<Rightarrow> int" where
  "findIndex P [] = -1"
| "findIndex P (x # xs) =
     (if P x then 0 else (let i = findIndex P xs in if i < 0 then -1 else i + 1))"

text \<open>
  \<^verbatim>\<open>PanelLayout.insertWidget(index, widget)\<close> for a widget that is not in the layout
  yet: the index is clamped to the range from \<open>0\<close> to the number of widgets.
\<close>

definition insertWidget :: "int \<Rightarrow> lwidget \<Rightarrow> lwidget list \<Rightarrow> lwidget list" where
  "insertWidget i w ws =
     (let j = nat (max 0 (min i (int (length ws)))) in take j ws @ [w] @ drop j ws)"

text \<open>
  An assignment through the reference that \<^verbatim>\<open>Array.prototype.find\<close> returned: the
  first element that satisfies the predicate is replaced.
\<close>

fun update_first :: "('a \<Rightarrow> bool) \<Rightarrow> ('a \<Rightarrow> 'a) \<Rightarrow> 'a list \<Rightarrow> 'a list" where
  "update_first P f [] = []"
| "update_first P f (x # xs) = (if P x then f x # xs else x # update_first P f xs)"

text \<open>The widget the presentation gate creates, with the class it adds.\<close>

definition newCellWidget :: "monitor \<Rightarrow> cellModel \<Rightarrow> lwidget" where
  "newCellWidget s cellModel =
     \<lparr>classes = [''spark-monitor-cell-widget''],
      element = Some (panelId s, cellId cellModel)\<rparr>"

section \<open>\<^verbatim>\<open>src/lab-extension/jupyterlab-sparkmonitor.ts\<close>\<close>

text \<open>
  \<^verbatim>\<open>cellWidgetMap\<close> is a plain object (\<^verbatim>\<open>{}\<close>) used as a dictionary; the field of the
  state holds its own properties. Every key but one behaves as in a dictionary: an
  inherited member of \<^verbatim>\<open>Object.prototype\<close> is a function, never \<^verbatim>\<open>true\<close>, and an
  assignment shadows it. The key \<^verbatim>\<open>__proto__\<close> is the accessor of \<^verbatim>\<open>Object.prototype\<close>:
  reading it yields the prototype object, never \<^verbatim>\<open>true\<close>, and assigning \<^verbatim>\<open>true\<close> to it
  stores nothing and does not throw. \<open>readsTrue dict k\<close> is \<^verbatim>\<open>dict[k] === true\<close> and
  \<open>assignTrue dict k\<close> is the object after \<^verbatim>\<open>dict[k] = true\<close>.
\<close>

definition readsTrue :: "(string \<rightharpoonup> bool) \<Rightarrow> string \<Rightarrow> bool" where
  "readsTrue dict k = (k \<noteq> ''__proto__'' \<and> dict k = Some True)"

definition assignTrue :: "(string \<rightharpoonup> bool) \<Rightarrow> string \<Rightarrow> (string \<rightharpoonup> bool)" where
  "assignTrue dict k = (if k = ''__proto__'' then dict else dict(k \<mapsto> True))"

definition createElementIfNotExists :: "cellModel \<Rightarrow> monitor \<Rightarrow> monitor" where
  "createElementIfNotExists cellModel s =
     (if readsTrue (cellWidgetMap s) (cellId cellModel) then s
      else if cellType cellModel = ''code'' then
        (case List.find (\<lambda>widget. model widget = cellModel) (widgets s) of
           None \<Rightarrow> s
         | Some codeCell \<Rightarrow>
             if \<not> hasSparkRoot codeCell then
               (let widget = newCellWidget s cellModel;
                    outputWrapperIndex =
                      findIndex (\<lambda>w. hasClass w ''jp-Cell-outputWrapper'') (layout codeCell);
                    insertIndex =
                      (if outputWrapperIndex > 0 then outputWrapperIndex - 1 else 2)
                in emit [InsertWidget (cellId cellModel) insertIndex,
                         CellUpdate (cellId cellModel)]
                     (s\<lparr>widgets :=
                          update_first (\<lambda>widget. model widget = cellModel)
                            (\<lambda>c. c\<lparr>layout := insertWidget insertIndex widget (layout c)\<rparr>)
                            (widgets s),
                        cellWidgetMap := assignTrue (cellWidgetMap s) (cellId cellModel)\<rparr>))
             else s)
      else s)"

definition onSparkJobStart :: "json \<Rightarrow> monitor \<Rightarrow> monitor" where
  "onSparkJobStart data s =
     (case activeCell s of
        None \<Rightarrow> emit [ConsoleWarn ''SparkMonitor: Job started with no running cell.''] s
      | Some c \<Rightarrow>
          (let s1 = createElementIfNotExists (model c) s;
               newExecution = (numCellsExecuted s1 > cellExecCountSinceSparkJobStart s1);
               s2 = (if newExecution
                     then emit [Store (OnCellExecutedAgain (cellId (model c)))]
                            (s1\<lparr>cellExecCountSinceSparkJobStart := numCellsExecuted s1\<rparr>)
                     else s1)
           in emit [Store (OnSparkJobStart (cellId (model c)) data)] s2))"

definition onSparkStageSubmitted :: "json \<Rightarrow> monitor \<Rightarrow> monitor" where
  "onSparkStageSubmitted data s =
     (case activeCell s of
        None \<Rightarrow> emit [ConsoleWarn ''SparkMonitor: Stage started with no running cell.''] s
      | Some c \<Rightarrow>
          emit [Store (OnSparkStageSubmitted (cellId (model c)) data)]
            (createElementIfNotExists (model c) s))"

text \<open>
  \<^verbatim>\<open>JSON.parse\<close> is a built-in of the language and is taken as a parameter: it is
  applied to the value of \<^verbatim>\<open>msg.content.data.msg\<close> (\<open>None\<close> when the member is
  missing) and returns \<open>None\<close> where the built-in throws a SyntaxError. The argument
  \<open>content_data\<close> is the object \<^verbatim>\<open>msg.content.data\<close>. The result is the exception
  that leaves \<^verbatim>\<open>handleMessage\<close>, if any, with the state at that moment. The calls
  on the store are taken to return.
\<close>

definition handleMessage ::
  "(json option \<Rightarrow> json option) \<Rightarrow> (string \<times> json) list \<Rightarrow> monitor \<Rightarrow> js_error option \<times> monitor" where
  "handleMessage JSON_parse content_data s0 =
     (let s = (if \<not> truthy (map_of content_data ''msgtype'')
               then emit [ConsoleWarn ''SparkMonitor: Unknown message''] s0 else s0)
      in if map_of content_data ''msgtype'' = Some (JStr ''fromscala'') then
           (case JSON_parse (map_of content_data ''msg'') of
              None \<Rightarrow> (Some SyntaxError, s)
            | Some data \<Rightarrow>
                (case get_msgtype data of
                   Inl e \<Rightarrow> (Some e, s)
                 | Inr t \<Rightarrow>
                     (None,
                      if t = Some (JStr ''sparkJobStart'') then onSparkJobStart data s
                      else if t = Some (JStr ''sparkJobEnd'')
                        then emit [Store (OnSparkJobEnd data)] s
                      else if t = Some (JStr ''sparkStageSubmitted'')
                        then onSparkStageSubmitted data s
                      else if t = Some (JStr ''sparkStageCompleted'')
                        then emit [Store (OnSparkStageCompleted data)] s
                      else if t = Some (JStr ''sparkStageActive'')
                        then emit [Store (OnSparkStageActive data)] s
                      else if t = Some (JStr ''sparkTaskStart'')
                        then emit [Store (OnSparkTaskStart data)] s
                      else if t = Some (JStr ''sparkTaskEnd'')
                        then emit [Store (OnSparkTaskEnd data)] s
                      else if t = Some (JStr ''sparkApplicationStart'')
                        then emit [Store (OnSparkApplicationStart data)] s
                      else if t = Some (JStr ''sparkApplicationEnd'') then s
                      else if t = Some (JStr ''sparkExecutorAdded'')
                        then emit [Store (OnSparkExecutorAdded data)] s
                      else if t = Some (JStr ''sparkExecutorRemoved'')
                        then emit [Store (OnSparkExecutorRemoved data)] s
                      else emit [ConsoleWarn ''SparkMonitor: Unknown message''] s)))
         else (None, s))"

section \<open>\<^verbatim>\<open>src/unnamed/part_000\<close>\<close>

text \<open>
  The second source file declares the same class. Its presentation gate has no
  \<^verbatim>\<open>cellWidgetMap\<close> and puts the widget at the start of the output area, and its
  two handlers call it after the store. The definitions carry the suffix \<open>_p000\<close>.
\<close>

definition createElementIfNotExists_p000 :: "cellModel \<Rightarrow> monitor \<Rightarrow> monitor" where
  "createElementIfNotExists_p000 cellModel s =
     (if cellType cellModel = ''code'' then
        (case List.find (\<lambda>widget. model widget = cellModel) (widgets s) of
           None \<Rightarrow> s
         | Some codeCell \<Rightarrow>
             if \<not> hasSparkRoot codeCell then
               (case outputArea codeCell of
                  None \<Rightarrow> s
                | Some area \<Rightarrow>
                    if List.find (\<lambda>widget. hasClass widget ''spark-monitor-cell-widget'') area
                         \<noteq> None
                    then s
                    else
                      (let widget = newCellWidget s cellModel
                       in emit [InsertWidget (cellId cellModel) 0,
                                CellUpdate (cellId cellModel)]
                            (s\<lparr>widgets :=
                                 update_first (\<lambda>widget. model widget = cellModel)
                                   (\<lambda>c. c\<lparr>outputArea := Some (insertWidget 0 widget area)\<rparr>)
                                   (widgets s)\<rparr>)))
             else s)
      else s)"

definition onSparkJobStart_p000 :: "json \<Rightarrow> monitor \<Rightarrow> monitor" where
  "onSparkJobStart_p000 data s =
     (case activeCell s of
        None \<Rightarrow> emit [ConsoleWarn ''SparkMonitor: Job started with no running cell.''] s
      | Some c \<Rightarrow>
          (let newExecution = (numCellsExecuted s > cellExecCountSinceSparkJobStart s);
               s1 = (if newExecution
                     then emit [Store (OnCellExecutedAgain (cellId (model c)))]
                            (s\<lparr>cellExecCountSinceSparkJobStart := numCellsExecuted s\<rparr>)
                     else s);
               s2 = emit [Store (OnSparkJobStart (cellId (model c)) data)] s1
           in createElementIfNotExists_p000 (model c) s2))"

definition onSparkStageSubmitted_p000 :: "json \<Rightarrow> monitor \<Rightarrow> monitor" where
  "onSparkStageSubmitted_p000 data s =
     (case activeCell s of
        None \<Rightarrow> emit [ConsoleWarn ''SparkMonitor: Stage started with no running cell.''] s
      | Some c \<Rightarrow>
          createElementIfNotExists_p000 (model c)
            (emit [Store (OnSparkStageSubmitted (cellId (model c)) data)] s))"

definition handleMessage_p000 ::
  "(json option \<Rightarrow> json option) \<Rightarrow> (string \<times> json) list \<Rightarrow> monitor \<Rightarrow> js_error option \<times> monitor" where
  "handleMessage_p000 JSON_parse content_data s0 =
     (let s = (if \<not> truthy (map_of content_data ''msgtype'')
               then emit [ConsoleWarn ''SparkMonitor: Unknown message''] s0 else s0)
      in if map_of content_data ''msgtype'' = Some (JStr ''fromscala'') then
           (case JSON_parse (map_of content_data ''msg'') of
              None \<Rightarrow> (Some SyntaxError, s)
            | Some data \<Rightarrow>
                (case get_msgtype data of
                   Inl e \<Rightarrow> (Some e, s)
                 | Inr t \<Rightarrow>
                     (None,
                      if t = Some (JStr ''sparkJobStart'') then onSparkJobStart_p000 data s
                      else if t = Some (JStr ''sparkJobEnd'')
                        then emit [Store (OnSparkJobEnd data)] s
                      else if t = Some (JStr ''sparkStageSubmitted'')
                        then onSparkStageSubmitted_p000 data s
                      else if t = Some (JStr ''sparkStageCompleted'')
                        then emit [Store (OnSparkStageCompleted data)] s
                      else if t = Some (JStr ''sparkStageActive'')
                        then emit [Store (OnSparkStageActive data)] s
                      else if t = Some (JStr ''sparkTaskStart'')
                        then emit [Store (OnSparkTaskStart data)] s
                      else if t = Some (JStr ''sparkTaskEnd'')
                        then emit [Store (OnSparkTaskEnd data)] s
                      else if t = Some (JStr ''sparkApplicationStart'')
                        then emit [Store (OnSparkApplicationStart data)] s
                      else if t = Some (JStr ''sparkApplicationEnd'') then s
                      else if t = Some (JStr ''sparkExecutorAdded'')
                        then emit [Store (OnSparkExecutorAdded data)] s
                      else if t = Some (JStr ''sparkExecutorRemoved'')
                        then emit [Store (OnSparkExecutorRemoved data)] s
                      else emit [ConsoleWarn ''SparkMonitor: Unknown message''] s)))
         else (None, s))"

section \<open>The channel and the subscriptions, the same text in both files\<close>

text \<open>
  The callback of \<^verbatim>\<open>ready().then(...)\<close> in \<^verbatim>\<open>startComm\<close>. Without a kernel the call
  \<^verbatim>\<open>this.kernel.connectToComm\<close> throws inside the callback, which rejects the promise
  and leaves the fields as they were. The kernel hands out a new object at each call.
\<close>

definition startComm_then :: "monitor \<Rightarrow> monitor" where
  "startComm_then s =
     (case kernel s of
        None \<Rightarrow> emit [Rejected TypeError] s
      | Some k \<Rightarrow>
          (let call = (if hasCreateComm k then CreateComm ''SparkMonitor''
                       else ConnectToComm ''SparkMonitor'');
               c = (if suppliesComm k then Some (nextComm k) else None);
               s1 = emit [call] (s\<lparr>comm := c, kernel := Some (k\<lparr>nextComm := nextComm k + 1\<rparr>)\<rparr>)
           in case c of
                None \<Rightarrow> emit [ConsoleWarn ''SparkMonitor: Unable to connect to comm''] s1
              | Some h \<Rightarrow>
                  emit [CommOpen h (JObj [(''msgtype'', JStr ''openfromfrontend'')]),
                        SetOnMsg h, SetOnClose h,
                        ConsoleLog ''SparkMonitor: Connection with comms established''] s1))"

text \<open>
  \<^verbatim>\<open>startComm\<close>: the callback runs once the tracker is ready. When it is ready already
  the callback runs as soon as the caller returns, and no caller does anything after
  the call that the callback could observe; otherwise it waits.
\<close>

definition startComm :: "monitor \<Rightarrow> monitor" where
  "startComm s =
     (let s1 = emit [ConsoleLog ''SparkMonitor: Starting Comm with kernel.''] s
      in if trackerReady s1 then startComm_then s1
         else s1\<lparr>pendingReady := pendingReady s1 + 1\<rparr>)"

text \<open>The handler the constructor connects to \<^verbatim>\<open>kernel.statusChanged\<close>.\<close>

definition statusChanged :: "string \<Rightarrow> monitor \<Rightarrow> monitor" where
  "statusChanged status s =
     (if status = ''starting'' then startComm (s\<lparr>cellReexecuted := False\<rparr>) else s)"

text \<open>
  The handler the constructor connects to \<^verbatim>\<open>cells.changed\<close>; \<open>oldValues\<close> may hold
  \<^verbatim>\<open>undefined\<close> entries.
\<close>

definition cellsChanged :: "string \<Rightarrow> cellModel option list \<Rightarrow> monitor \<Rightarrow> monitor" where
  "cellsChanged changeType oldValues s =
     (if changeType = ''remove''
      then emit (concat (map (\<lambda>c. case c of None \<Rightarrow> []
                                  | Some m \<Rightarrow> [Store (OnCellRemoved (cellId m))]) oldValues)) s
      else s)"

definition toggleAll :: "monitor \<Rightarrow> monitor" where
  "toggleAll s = emit [Store ToggleHideAllDisplays] s"

text \<open>
  The constructor, on the world it is given: the field initialisers, then
  \<^verbatim>\<open>startComm()\<close>. The tracker is new, so it has seen no execution.
\<close>

definition constructor :: "string \<Rightarrow> cell list \<Rightarrow> kernel option \<Rightarrow> bool \<Rightarrow> monitor" where
  "constructor pid ws k ready =
     startComm
       \<lparr>cellExecCountSinceSparkJobStart = 0, cellWidgetMap = Map.empty, comm = None,
        kernel = k, activeCell = None, numCellsExecuted = 0, cellReexecuted = False,
        trackerReady = ready, pendingReady = 0, panelId = pid, widgets = ws, trace = []\<rparr>"

section \<open>The tracker and the event loop\<close>

text \<open>
  Modelled from the spec: \<^verbatim>\<open>onCellStarted\<close> of the tracker, which is not among the
  sources, "records a new ActiveCell, increments ExecutionCounter".
\<close>

definition onCellStarted :: "cell \<Rightarrow> monitor \<Rightarrow> monitor" where
  "onCellStarted c s = s\<lparr>activeCell := Some c, numCellsExecuted := numCellsExecuted s + 1\<rparr>"

text \<open>
  Modelled from the spec: \<^verbatim>\<open>ready()\<close> of the tracker resolves once; the continuations
  that wait for it then run in the order they were registered.
\<close>

definition trackerBecomesReady :: "monitor \<Rightarrow> monitor" where
  "trackerBecomesReady s =
     (if trackerReady s then s
      else (startComm_then ^^ pendingReady s) (s\<lparr>trackerReady := True, pendingReady := 0\<rparr>))"

text \<open>
  What can happen to a monitor after its construction. A message is handled by the
  \<^verbatim>\<open>onMsg\<close> callback, whether it returns or throws.
  The status signal exists only with a kernel, and the notebook may replace its cells
  at any time. The event loop is written once, over the
  message handler of either file.

  Modelled from the spec: the re-execution flag is a field of the tracker, which is not
  among the sources, and the spec does not say when the tracker writes it; so the tracker
  may write either value at any time.
\<close>

datatype event =
    CommMsg "(string \<times> json) list"
  | StatusChanged string
  | CellsChanged string "cellModel option list"
  | ToggleAll
  | CellStarted cell
  | TrackerReady
  | NotebookChanged "cell list"
  | ReexecutionFlag bool

fun deliver ::
  "((string \<times> json) list \<Rightarrow> monitor \<Rightarrow> js_error option \<times> monitor) \<Rightarrow> event \<Rightarrow> monitor \<Rightarrow> monitor" where
  "deliver h (CommMsg d) s = snd (h d s)"
| "deliver h (StatusChanged st) s = (if kernel s = None then s else statusChanged st s)"
| "deliver h (CellsChanged ty old) s = cellsChanged ty old s"
| "deliver h ToggleAll s = toggleAll s"
| "deliver h (CellStarted c) s = onCellStarted c s"
| "deliver h TrackerReady s = trackerBecomesReady s"
| "deliver h (NotebookChanged ws) s = s\<lparr>widgets := ws\<rparr>"
| "deliver h (ReexecutionFlag b) s = s\<lparr>cellReexecuted := b\<rparr>"

fun run ::
  "((string \<times> json) list \<Rightarrow> monitor \<Rightarrow> js_error option \<times> monitor) \<Rightarrow> event list \<Rightarrow> monitor \<Rightarrow> monitor" where
  "run h [] s = s"
| "run h (e # es) s = run h es (deliver h e s)"

section \<open>Notions used in the statements\<close>

text \<open>
  When the presentation gate of each file creates a surface, and the effects one call of
  it appends to the trace; the case labels of the \<^verbatim>\<open>switch\<close> in \<^verbatim>\<open>handleMessage\<close>; the
  messages that reach \<^verbatim>\<open>onSparkJobStart\<close>; the number of calls of \<^verbatim>\<open>startComm\<close> in a
  trace. The last two are invariants of the reachable states: the comm field holds an
  object the kernel made earlier, and the presence map records only cells for which a
  surface was inserted.
\<close>

definition creatable :: "cellModel \<Rightarrow> monitor \<Rightarrow> bool" where
  "creatable m s =
     (\<not> readsTrue (cellWidgetMap s) (cellId m) \<and> cellType m = ''code'' \<and>
      (case List.find (\<lambda>widget. model widget = m) (widgets s) of
         None \<Rightarrow> False | Some codeCell \<Rightarrow> \<not> hasSparkRoot codeCell))"

definition creatable_p000 :: "cellModel \<Rightarrow> monitor \<Rightarrow> bool" where
  "creatable_p000 m s =
     (cellType m = ''code'' \<and>
      (case List.find (\<lambda>widget. model widget = m) (widgets s) of
         None \<Rightarrow> False
       | Some codeCell \<Rightarrow> \<not> hasSparkRoot codeCell \<and>
           (case outputArea codeCell of
              None \<Rightarrow> False
            | Some area \<Rightarrow>
                List.find (\<lambda>widget. hasClass widget ''spark-monitor-cell-widget'') area = None)))"

definition gate_effects :: "cellModel \<Rightarrow> monitor \<Rightarrow> effect list" where
  "gate_effects m s = drop (length (trace s)) (trace (createElementIfNotExists m s))"

definition gate_effects_p000 :: "cellModel \<Rightarrow> monitor \<Rightarrow> effect list" where
  "gate_effects_p000 m s = drop (length (trace s)) (trace (createElementIfNotExists_p000 m s))"

definition recognized_kinds :: "string list" where
  "recognized_kinds =
     [''sparkJobStart'', ''sparkJobEnd'', ''sparkStageSubmitted'', ''sparkStageCompleted'',
      ''sparkStageActive'', ''sparkTaskStart'', ''sparkTaskEnd'', ''sparkApplicationStart'',
      ''sparkApplicationEnd'', ''sparkExecutorAdded'', ''sparkExecutorRemoved'']"

definition job_start_message :: "(json option \<Rightarrow> json option) \<Rightarrow> (string \<times> json) list \<Rightarrow> bool" where
  "job_start_message JSON_parse cd =
     (map_of cd ''msgtype'' = Some (JStr ''fromscala'') \<and>
      (case JSON_parse (map_of cd ''msg'') of
         None \<Rightarrow> False
       | Some data \<Rightarrow> get_msgtype data = Inr (Some (JStr ''sparkJobStart''))))"

definition startComm_calls :: "effect list \<Rightarrow> nat" where
  "startComm_calls tr = count_list tr (ConsoleLog ''SparkMonitor: Starting Comm with kernel.'')"

definition handles_fresh :: "monitor \<Rightarrow> bool" where
  "handles_fresh s =
     (case comm s of
        None \<Rightarrow> True
      | Some h \<Rightarrow> (case kernel s of None \<Rightarrow> False | Some k \<Rightarrow> h < nextComm k))"

definition recorded_created :: "monitor \<Rightarrow> bool" where
  "recorded_created s =
     (\<forall>cid. cellWidgetMap s cid = Some True \<longrightarrow> (\<exists>i. InsertWidget cid i \<in> set (trace s)))"

section \<open>A sample notebook\<close>

text \<open>
  One code cell \<open>c1\<close> in the notebook \<open>nb\<close>, a kernel with comms, and the decoding of
  the three payload texts that the examples deliver (\<open>sample_parse\<close> is \<^verbatim>\<open>JSON.parse\<close>
  on these texts and throws on every other argument, among them the text \<^verbatim>\<open>{\<close>).
  A second notebook has one code cell with the id \<^verbatim>\<open>__proto__\<close>, which the notebook
  format allows (letters, digits, \<^verbatim>\<open>-\<close> and \<^verbatim>\<open>_\<close>).
\<close>

definition sample_cell :: cell where
  "sample_cell =
     \<lparr>model = \<lparr>obj = 1, cellId = ''c1'', cellType = ''code''\<rparr>,
      hasSparkRoot = False,
      layout = [\<lparr>classes = [''jp-Cell-header''], element = None\<rparr>,
                \<lparr>classes = [''jp-Cell-inputWrapper''], element = None\<rparr>,
                \<lparr>classes = [''jp-Cell-outputWrapper''], element = None\<rparr>],
      outputArea = Some []\<rparr>"

definition sample_kernel :: kernel where
  "sample_kernel = \<lparr>hasCreateComm = True, suppliesComm = True, nextComm = 0\<rparr>"

definition sample_monitor :: monitor where
  "sample_monitor = constructor ''nb'' [sample_cell] (Some sample_kernel) True"

definition job_start_data :: json where
  "job_start_data = JObj [(''msgtype'', JStr ''sparkJobStart''), (''jobId'', JNum 1)]"

definition stage_submitted_data :: json where
  "stage_submitted_data = JObj [(''msgtype'', JStr ''sparkStageSubmitted''), (''stageId'', JNum 0)]"

definition sample_parse :: "json option \<Rightarrow> json option" where
  \<open>sample_parse v =
     (case v of
        Some (JStr text) \<Rightarrow>
          map_of
            [(''{"msgtype":"sparkJobStart","jobId":1}'', job_start_data),
             (''{"msgtype":"sparkApplicationEnd"}'',
                JObj [(''msgtype'', JStr ''sparkApplicationEnd'')]),
             (''{"msgtype":"sparkFoo"}'', JObj [(''msgtype'', JStr ''sparkFoo'')])] text
      | _ \<Rightarrow> None)\<close>

definition job_start_msg :: "(string \<times> json) list" where
  \<open>job_start_msg =
     [(''msgtype'', JStr ''fromscala''),
      (''msg'', JStr ''{"msgtype":"sparkJobStart","jobId":1}'')]\<close>

definition application_end_msg :: "(string \<times> json) list" where
  \<open>application_end_msg =
     [(''msgtype'', JStr ''fromscala''), (''msg'', JStr ''{"msgtype":"sparkApplicationEnd"}'')]\<close>

definition spark_foo_msg :: "(string \<times> json) list" where
  \<open>spark_foo_msg =
     [(''msgtype'', JStr ''fromscala''), (''msg'', JStr ''{"msgtype":"sparkFoo"}'')]\<close>

definition bad_payload_msg :: "(string \<times> json) list" where
  "bad_payload_msg = [(''msgtype'', JStr ''fromscala''), (''msg'', JStr ''{'')]"

definition other_envelope_msg :: "(string \<times> json) list" where
  \<open>other_envelope_msg =
     [(''msgtype'', JStr ''fromjava''), (''msg'', JStr ''{"msgtype":"sparkJobStart","jobId":1}'')]\<close>

definition reexecuted_monitor :: monitor where
  "reexecuted_monitor = run (handleMessage sample_parse) [ReexecutionFlag True] sample_monitor"

definition proto_cell :: cell where
  "proto_cell =
     \<lparr>model = \<lparr>obj = 2, cellId = ''__proto__'', cellType = ''code''\<rparr>,
      hasSparkRoot = False,
      layout = [\<lparr>classes = [''jp-Cell-header''], element = None\<rparr>,
                \<lparr>classes = [''jp-Cell-inputWrapper''], element = None\<rparr>,
                \<lparr>classes = [''jp-Cell-outputWrapper''], element = None\<rparr>],
      outputArea = Some []\<rparr>"

definition proto_monitor :: monitor where
  "proto_monitor = constructor ''nb'' [proto_cell] (Some sample_kernel) True"

definition proto_once :: monitor where
  "proto_once = createElementIfNotExists (model proto_cell) proto_monitor"

definition first_run :: monitor where
  "first_run = run (handleMessage sample_parse) [CellStarted sample_cell] sample_monitor"

definition after_first_job :: monitor where
  "after_first_job =
     run (handleMessage sample_parse) [CellStarted sample_cell, CommMsg job_start_msg] sample_monitor"

definition after_third_run :: monitor where
  "after_third_run =
     run (handleMessage sample_parse) [CellStarted sample_cell, CellStarted sample_cell] after_first_job"

section \<open>Basic facts\<close>

lemma emit_fields:
  "trace (emit es s) = trace s @ es"
  "cellExecCountSinceSparkJobStart (emit es s) = cellExecCountSinceSparkJobStart s"
  "cellWidgetMap (emit es s) = cellWidgetMap s"
  "comm (emit es s) = comm s"
  "kernel (emit es s) = kernel s"
  "activeCell (emit es s) = activeCell s"
  "numCellsExecuted (emit es s) = numCellsExecuted s"
  "cellReexecuted (emit es s) = cellReexecuted s"
  "trackerReady (emit es s) = trackerReady s"
  "pendingReady (emit es s) = pendingReady s"
  "panelId (emit es s) = panelId s"
  "widgets (emit es s) = widgets s"
  by (simp_all add: emit_def)

lemma sink_calls_append: "sink_calls (xs @ ys) = sink_calls xs @ sink_calls ys"
  by (simp add: sink_calls_def)

lemma surfaces_created_append:
  "surfaces_created (xs @ ys) = surfaces_created xs + surfaces_created ys"
  by (simp add: surfaces_created_def)

lemma sink_calls_simps:
  "sink_calls [] = []"
  "sink_calls (Store c # tr) = c # sink_calls tr"
  "sink_calls (ConsoleWarn w # tr) = sink_calls tr"
  "sink_calls (ConsoleLog w # tr) = sink_calls tr"
  "sink_calls (InsertWidget cid i # tr) = sink_calls tr"
  "sink_calls (CellUpdate cid # tr) = sink_calls tr"
  by (simp_all add: sink_calls_def)

lemma surfaces_created_simps:
  "surfaces_created [] = 0"
  "surfaces_created (Store c # tr) = surfaces_created tr"
  "surfaces_created (ConsoleWarn w # tr) = surfaces_created tr"
  "surfaces_created (ConsoleLog w # tr) = surfaces_created tr"
  "surfaces_created (InsertWidget cid i # tr) = Suc (surfaces_created tr)"
  "surfaces_created (CellUpdate cid # tr) = surfaces_created tr"
  by (simp_all add: surfaces_created_def)

lemma gate_noop: "\<not> creatable m s \<Longrightarrow> createElementIfNotExists m s = s"
  by (auto simp: creatable_def createElementIfNotExists_def split: option.splits)

lemma gate_frame:
  "cellExecCountSinceSparkJobStart (createElementIfNotExists m s) = cellExecCountSinceSparkJobStart s"
  "numCellsExecuted (createElementIfNotExists m s) = numCellsExecuted s"
  "activeCell (createElementIfNotExists m s) = activeCell s"
  "comm (createElementIfNotExists m s) = comm s"
  "kernel (createElementIfNotExists m s) = kernel s"
  "cellReexecuted (createElementIfNotExists m s) = cellReexecuted s"
  "trackerReady (createElementIfNotExists m s) = trackerReady s"
  "pendingReady (createElementIfNotExists m s) = pendingReady s"
  "panelId (createElementIfNotExists m s) = panelId s"
  by (simp_all add: createElementIfNotExists_def Let_def emit_def split: option.split)

lemma gate_trace:
  "trace (createElementIfNotExists m s) = trace s @ gate_effects m s"
  by (simp add: gate_effects_def createElementIfNotExists_def Let_def emit_def split: option.split)

lemma gate_effects_cases:
  "gate_effects m s = [] \<and> \<not> creatable m s \<or>
   (\<exists>i. gate_effects m s = [InsertWidget (cellId m) i, CellUpdate (cellId m)]) \<and> creatable m s"
  by (auto simp: gate_effects_def creatable_def createElementIfNotExists_def Let_def emit_def
      split: option.split)

lemma gate_effects_emit: "gate_effects m (emit es s) = gate_effects m s"
  by (simp add: gate_effects_def createElementIfNotExists_def Let_def emit_def split: option.split)

lemma gate_effects_sink: "sink_calls (gate_effects m s) = []"
  using gate_effects_cases [of m s] by (auto simp: sink_calls_simps)

lemma gate_effects_surfaces:
  "surfaces_created (gate_effects m s) = (if creatable m s then 1 else 0)"
  using gate_effects_cases [of m s] by (auto simp: surfaces_created_simps)

lemma gate_p000_noop: "\<not> creatable_p000 m s \<Longrightarrow> createElementIfNotExists_p000 m s = s"
  by (auto simp: creatable_p000_def createElementIfNotExists_p000_def split: option.splits)

lemma gate_p000_frame:
  "cellExecCountSinceSparkJobStart (createElementIfNotExists_p000 m s) = cellExecCountSinceSparkJobStart s"
  "numCellsExecuted (createElementIfNotExists_p000 m s) = numCellsExecuted s"
  "activeCell (createElementIfNotExists_p000 m s) = activeCell s"
  "cellWidgetMap (createElementIfNotExists_p000 m s) = cellWidgetMap s"
  "comm (createElementIfNotExists_p000 m s) = comm s"
  "kernel (createElementIfNotExists_p000 m s) = kernel s"
  "cellReexecuted (createElementIfNotExists_p000 m s) = cellReexecuted s"
  "trackerReady (createElementIfNotExists_p000 m s) = trackerReady s"
  "pendingReady (createElementIfNotExists_p000 m s) = pendingReady s"
  "panelId (createElementIfNotExists_p000 m s) = panelId s"
  by (simp_all add: createElementIfNotExists_p000_def Let_def emit_def split: option.split)

lemma gate_p000_trace:
  "trace (createElementIfNotExists_p000 m s) = trace s @ gate_effects_p000 m s"
  by (simp add: gate_effects_p000_def createElementIfNotExists_p000_def Let_def emit_def
      split: option.split)

lemma gate_effects_p000_cases:
  "gate_effects_p000 m s = [] \<and> \<not> creatable_p000 m s \<or>
   gate_effects_p000 m s = [InsertWidget (cellId m) 0, CellUpdate (cellId m)] \<and> creatable_p000 m s"
  by (auto simp: gate_effects_p000_def creatable_p000_def createElementIfNotExists_p000_def
      Let_def emit_def split: option.split)

lemma gate_effects_p000_emit: "gate_effects_p000 m (emit es s) = gate_effects_p000 m s"
  by (simp add: gate_effects_p000_def createElementIfNotExists_p000_def Let_def emit_def
      split: option.split)

lemma gate_effects_p000_update:
  "gate_effects_p000 m (s\<lparr>cellExecCountSinceSparkJobStart := n\<rparr>) = gate_effects_p000 m s"
  by (simp add: gate_effects_p000_def createElementIfNotExists_p000_def Let_def emit_def
      split: option.split)

lemma gate_effects_p000_sink: "sink_calls (gate_effects_p000 m s) = []"
  using gate_effects_p000_cases [of m s] by (auto simp: sink_calls_simps)

lemma gate_effects_p000_surfaces:
  "surfaces_created (gate_effects_p000 m s) = (if creatable_p000 m s then 1 else 0)"
  using gate_effects_p000_cases [of m s] by (auto simp: surfaces_created_simps)

lemmas fixture_defs = sample_cell_def sample_kernel_def sample_monitor_def job_start_data_def
  stage_submitted_data_def sample_parse_def job_start_msg_def first_run_def after_first_job_def
  after_third_run_def constructor_def startComm_def startComm_then_def emit_def
  onCellStarted_def handleMessage_def onSparkJobStart_def createElementIfNotExists_def
  newCellWidget_def hasClass_def insertWidget_def readsTrue_def assignTrue_def Let_def

lemma after_first_job_facts:
  "activeCell after_first_job = Some sample_cell"
  "numCellsExecuted after_first_job = 1"
  "cellExecCountSinceSparkJobStart after_first_job = 1"
  "sink_calls (trace after_first_job) =
     [OnCellExecutedAgain ''c1'', OnSparkJobStart ''c1'' job_start_data]"
  by (simp_all add: fixture_defs sink_calls_def)

lemma after_third_run_facts:
  "activeCell after_third_run = Some sample_cell"
  "numCellsExecuted after_third_run = 3"
  "cellExecCountSinceSparkJobStart after_third_run = 1"
  "sink_calls (trace after_third_run) =
     [OnCellExecutedAgain ''c1'', OnSparkJobStart ''c1'' job_start_data]"
  by (simp_all add: after_third_run_def onCellStarted_def after_first_job_facts)

lemma find_update_first:
  "(\<And>x. P x \<Longrightarrow> P (f x)) \<Longrightarrow> List.find P (update_first P f xs) = map_option f (List.find P xs)"
  by (induction xs) auto

lemma gate_records:
  "creatable m s \<Longrightarrow> cellId m \<noteq> ''__proto__''
   \<Longrightarrow> readsTrue (cellWidgetMap (createElementIfNotExists m s)) (cellId m)"
  by (auto simp: creatable_def createElementIfNotExists_def Let_def emit_def readsTrue_def
      assignTrue_def split: option.splits)

lemma gate_not_creatable_after:
  "cellId m \<noteq> ''__proto__'' \<Longrightarrow> \<not> creatable m (createElementIfNotExists m s)"
proof (cases "creatable m s")
  case True
  assume "cellId m \<noteq> ''__proto__''"
  with True show ?thesis using gate_records [of m s] by (simp add: creatable_def)
next
  case False
  then show ?thesis by (simp add: gate_noop)
qed

lemma gate_idem:
  "cellId m \<noteq> ''__proto__''
   \<Longrightarrow> createElementIfNotExists m (createElementIfNotExists m s) = createElementIfNotExists m s"
  by (simp add: gate_noop gate_not_creatable_after)

lemma insertWidget_0: "insertWidget 0 w ws = w # ws"
  by (simp add: insertWidget_def)

lemma gate_p000_not_creatable_after: "\<not> creatable_p000 m (createElementIfNotExists_p000 m s)"
proof (cases "creatable_p000 m s")
  case True
  then obtain c area where c: "List.find (\<lambda>widget. model widget = m) (widgets s) = Some c"
    and ty: "cellType m = ''code''" and root: "\<not> hasSparkRoot c"
    and area: "outputArea c = Some area"
    and none: "List.find (\<lambda>widget. hasClass widget ''spark-monitor-cell-widget'') area = None"
    by (auto simp: creatable_p000_def split: option.splits)
  let ?f = "\<lambda>c. c\<lparr>outputArea := Some (insertWidget 0 (newCellWidget s m) area)\<rparr>"
  have eq: "createElementIfNotExists_p000 m s =
              emit [InsertWidget (cellId m) 0, CellUpdate (cellId m)]
                (s\<lparr>widgets := update_first (\<lambda>widget. model widget = m) ?f (widgets s)\<rparr>)"
    using c ty root area none by (simp add: createElementIfNotExists_p000_def)
  have "List.find (\<lambda>widget. model widget = m)
          (update_first (\<lambda>widget. model widget = m) ?f (widgets s)) = Some (?f c)"
    using c by (simp add: find_update_first)
  then show ?thesis
    by (simp add: eq creatable_p000_def emit_fields insertWidget_0 newCellWidget_def hasClass_def)
next
  case False
  then show ?thesis by (simp add: gate_p000_noop)
qed

lemma gate_p000_idem:
  "createElementIfNotExists_p000 m (createElementIfNotExists_p000 m s) = createElementIfNotExists_p000 m s"
  by (simp add: gate_p000_noop gate_p000_not_creatable_after)

lemma onSparkJobStart_saved:
  "cellExecCountSinceSparkJobStart (onSparkJobStart d s) =
     (if activeCell s \<noteq> None \<and> cellExecCountSinceSparkJobStart s < numCellsExecuted s
      then numCellsExecuted s else cellExecCountSinceSparkJobStart s)"
  by (simp add: onSparkJobStart_def Let_def emit_fields gate_frame split: option.split)

lemma onSparkJobStart_p000_saved:
  "cellExecCountSinceSparkJobStart (onSparkJobStart_p000 d s) =
     (if activeCell s \<noteq> None \<and> cellExecCountSinceSparkJobStart s < numCellsExecuted s
      then numCellsExecuted s else cellExecCountSinceSparkJobStart s)"
  by (simp add: onSparkJobStart_p000_def Let_def emit_fields gate_p000_frame split: option.split)

lemma onSparkStageSubmitted_saved:
  "cellExecCountSinceSparkJobStart (onSparkStageSubmitted d s) = cellExecCountSinceSparkJobStart s"
  "cellExecCountSinceSparkJobStart (onSparkStageSubmitted_p000 d s) = cellExecCountSinceSparkJobStart s"
  by (simp_all add: onSparkStageSubmitted_def onSparkStageSubmitted_p000_def emit_fields
      gate_frame gate_p000_frame split: option.split)

lemma handleMessage_saved:
  "cellExecCountSinceSparkJobStart (snd (handleMessage P cd s)) =
     (if job_start_message P cd \<and> activeCell s \<noteq> None
         \<and> cellExecCountSinceSparkJobStart s < numCellsExecuted s
      then numCellsExecuted s else cellExecCountSinceSparkJobStart s)"
  by (simp add: handleMessage_def job_start_message_def Let_def emit_fields
      onSparkJobStart_saved onSparkStageSubmitted_saved split: option.split sum.split)

lemma handleMessage_p000_saved:
  "cellExecCountSinceSparkJobStart (snd (handleMessage_p000 P cd s)) =
     (if job_start_message P cd \<and> activeCell s \<noteq> None
         \<and> cellExecCountSinceSparkJobStart s < numCellsExecuted s
      then numCellsExecuted s else cellExecCountSinceSparkJobStart s)"
  by (simp add: handleMessage_p000_def job_start_message_def Let_def emit_fields
      onSparkJobStart_p000_saved onSparkStageSubmitted_saved split: option.split sum.split)

lemma startComm_then_frame:
  "cellExecCountSinceSparkJobStart (startComm_then s) = cellExecCountSinceSparkJobStart s"
  "cellWidgetMap (startComm_then s) = cellWidgetMap s"
  "cellReexecuted (startComm_then s) = cellReexecuted s"
  "trackerReady (startComm_then s) = trackerReady s"
  "pendingReady (startComm_then s) = pendingReady s"
  "startComm_calls (trace (startComm_then s)) = startComm_calls (trace s)"
  by (simp_all add: startComm_then_def Let_def emit_def startComm_calls_def split: option.split)

lemma startComm_frame:
  "cellExecCountSinceSparkJobStart (startComm s) = cellExecCountSinceSparkJobStart s"
  "cellWidgetMap (startComm s) = cellWidgetMap s"
  "cellReexecuted (startComm s) = cellReexecuted s"
  "trackerReady (startComm s) = trackerReady s"
  "startComm_calls (trace (startComm s)) = Suc (startComm_calls (trace s))"
  by (simp_all add: startComm_def Let_def startComm_then_frame emit_fields)
    (simp_all add: startComm_calls_def emit_def)

lemma startComm_then_pow_saved:
  "cellExecCountSinceSparkJobStart ((startComm_then ^^ n) s) = cellExecCountSinceSparkJobStart s"
  by (induction n) (simp_all add: startComm_then_frame)

lemma other_events_saved:
  "cellExecCountSinceSparkJobStart (statusChanged st s) = cellExecCountSinceSparkJobStart s"
  "cellExecCountSinceSparkJobStart (cellsChanged ty old s) = cellExecCountSinceSparkJobStart s"
  "cellExecCountSinceSparkJobStart (toggleAll s) = cellExecCountSinceSparkJobStart s"
  "cellExecCountSinceSparkJobStart (onCellStarted c s) = cellExecCountSinceSparkJobStart s"
  "cellExecCountSinceSparkJobStart (trackerBecomesReady s) = cellExecCountSinceSparkJobStart s"
  by (simp_all add: statusChanged_def cellsChanged_def toggleAll_def onCellStarted_def
      trackerBecomesReady_def startComm_frame emit_fields startComm_then_pow_saved)

lemma deliver_saved:
  assumes "H = handleMessage P \<or> H = handleMessage_p000 P"
  shows "cellExecCountSinceSparkJobStart (deliver H e s) =
     (if (\<exists>cd. e = CommMsg cd \<and> job_start_message P cd) \<and> activeCell s \<noteq> None
         \<and> cellExecCountSinceSparkJobStart s < numCellsExecuted s
      then numCellsExecuted s else cellExecCountSinceSparkJobStart s)"
  using assms
  by (cases e) (auto simp: handleMessage_saved handleMessage_p000_saved other_events_saved)

lemma run_saved_mono:
  assumes "H = handleMessage P \<or> H = handleMessage_p000 P"
  shows "cellExecCountSinceSparkJobStart s \<le> cellExecCountSinceSparkJobStart (run H es s)"
proof (induction es arbitrary: s)
  case Nil
  then show ?case by simp
next
  case (Cons e es)
  have "cellExecCountSinceSparkJobStart s \<le> cellExecCountSinceSparkJobStart (deliver H e s)"
    by (simp add: deliver_saved [OF assms])
  also have "\<dots> \<le> cellExecCountSinceSparkJobStart (run H es (deliver H e s))"
    by (rule Cons.IH)
  finally show ?case by simp
qed

lemma handles_fresh_emit: "handles_fresh (emit es s) = handles_fresh s"
  by (simp add: handles_fresh_def emit_fields split: option.split)

lemma handles_fresh_cong:
  "comm s' = comm s \<Longrightarrow> kernel s' = kernel s \<Longrightarrow> handles_fresh s' = handles_fresh s"
  by (simp add: handles_fresh_def split: option.split)

lemma handlers_comm_kernel:
  "comm (onSparkJobStart d s) = comm s" "kernel (onSparkJobStart d s) = kernel s"
  "comm (onSparkStageSubmitted d s) = comm s" "kernel (onSparkStageSubmitted d s) = kernel s"
  "comm (onSparkJobStart_p000 d s) = comm s" "kernel (onSparkJobStart_p000 d s) = kernel s"
  "comm (onSparkStageSubmitted_p000 d s) = comm s" "kernel (onSparkStageSubmitted_p000 d s) = kernel s"
  by (simp_all add: onSparkJobStart_def onSparkStageSubmitted_def onSparkJobStart_p000_def
      onSparkStageSubmitted_p000_def Let_def emit_fields gate_frame gate_p000_frame
      split: option.split)

lemma handleMessage_comm_kernel:
  "comm (snd (handleMessage P cd s)) = comm s" "kernel (snd (handleMessage P cd s)) = kernel s"
  "comm (snd (handleMessage_p000 P cd s)) = comm s" "kernel (snd (handleMessage_p000 P cd s)) = kernel s"
  by (simp_all add: handleMessage_def handleMessage_p000_def Let_def emit_fields
      handlers_comm_kernel split: option.split sum.split)

lemma startComm_then_fresh: "handles_fresh s \<Longrightarrow> handles_fresh (startComm_then s)"
  by (auto simp: handles_fresh_def startComm_then_def Let_def emit_def split: option.splits)

lemma startComm_then_pow_fresh: "handles_fresh s \<Longrightarrow> handles_fresh ((startComm_then ^^ n) s)"
  by (induction n) (simp_all add: startComm_then_fresh)

lemma startComm_fresh: "handles_fresh s \<Longrightarrow> handles_fresh (startComm s)"
proof -
  assume h: "handles_fresh s"
  let ?s1 = "emit [ConsoleLog ''SparkMonitor: Starting Comm with kernel.''] s"
  have e: "handles_fresh ?s1"
    using h by (simp add: handles_fresh_emit)
  show ?thesis
  proof (cases "trackerReady s")
    case True
    then show ?thesis using startComm_then_fresh [OF e] by (simp add: startComm_def emit_fields)
  next
    case False
    have "handles_fresh (?s1\<lparr>pendingReady := pendingReady ?s1 + 1\<rparr>) = handles_fresh ?s1"
      by (rule handles_fresh_cong) simp_all
    then show ?thesis using False e by (simp add: startComm_def emit_fields)
  qed
qed

lemma deliver_fresh:
  assumes "H = handleMessage P \<or> H = handleMessage_p000 P" and "handles_fresh s"
  shows "handles_fresh (deliver H e s)"
proof (cases e)
  case (CommMsg cd)
  have "handles_fresh (snd (handleMessage P cd s)) = handles_fresh s"
    "handles_fresh (snd (handleMessage_p000 P cd s)) = handles_fresh s"
    by (rule handles_fresh_cong; simp add: handleMessage_comm_kernel)+
  then show ?thesis
    using assms CommMsg by auto
next
  case (StatusChanged st)
  have "handles_fresh (s\<lparr>cellReexecuted := False\<rparr>) = handles_fresh s"
    by (rule handles_fresh_cong) simp_all
  then show ?thesis
    using StatusChanged assms(2) startComm_fresh [of "s\<lparr>cellReexecuted := False\<rparr>"]
    by (simp add: statusChanged_def)
next
  case (CellsChanged ty old)
  then show ?thesis using assms(2) by (simp add: cellsChanged_def handles_fresh_emit)
next
  case ToggleAll
  then show ?thesis using assms(2) by (simp add: toggleAll_def handles_fresh_emit)
next
  case (CellStarted c)
  have "handles_fresh (onCellStarted c s) = handles_fresh s"
    by (rule handles_fresh_cong) (simp_all add: onCellStarted_def)
  then show ?thesis using CellStarted assms(2) by simp
next
  case TrackerReady
  have "handles_fresh (s\<lparr>trackerReady := True, pendingReady := 0\<rparr>) = handles_fresh s"
    by (rule handles_fresh_cong) simp_all
  then show ?thesis
    using TrackerReady assms(2) by (simp add: trackerBecomesReady_def startComm_then_pow_fresh)
next
  case (NotebookChanged ws)
  have "handles_fresh (s\<lparr>widgets := ws\<rparr>) = handles_fresh s"
    by (rule handles_fresh_cong) simp_all
  then show ?thesis using NotebookChanged assms(2) by simp
next
  case (ReexecutionFlag b)
  have "handles_fresh (s\<lparr>cellReexecuted := b\<rparr>) = handles_fresh s"
    by (rule handles_fresh_cong) simp_all
  then show ?thesis using ReexecutionFlag assms(2) by simp
qed

lemma run_fresh:
  assumes "H = handleMessage P \<or> H = handleMessage_p000 P"
  shows "handles_fresh s \<Longrightarrow> handles_fresh (run H es s)"
  by (induction es arbitrary: s) (simp_all add: deliver_fresh [OF assms])

lemma constructor_fresh: "handles_fresh (constructor pid ws k r)"
  unfolding constructor_def by (rule startComm_fresh) (simp add: handles_fresh_def)

lemma recorded_step:
  "recorded_created s \<Longrightarrow> cellWidgetMap s' = cellWidgetMap s \<Longrightarrow> set (trace s) \<subseteq> set (trace s')
   \<Longrightarrow> recorded_created s'"
  unfolding recorded_created_def by (metis subsetD)

lemma recorded_emit: "recorded_created s \<Longrightarrow> recorded_created (emit es s)"
  by (rule recorded_step [of s]) (simp_all add: emit_fields)

lemma gate_map:
  "cellWidgetMap (createElementIfNotExists m s) =
     (if creatable m s then assignTrue (cellWidgetMap s) (cellId m) else cellWidgetMap s)"
  by (auto simp: creatable_def createElementIfNotExists_def Let_def emit_def split: option.splits)

lemma gate_recorded: "recorded_created s \<Longrightarrow> recorded_created (createElementIfNotExists m s)"
proof (cases "creatable m s")
  case False
  then show "recorded_created s \<Longrightarrow> ?thesis" by (simp add: gate_noop)
next
  case True
  assume r: "recorded_created s"
  from True gate_effects_cases [of m s]
  obtain i where "gate_effects m s = [InsertWidget (cellId m) i, CellUpdate (cellId m)]" by auto
  then have t: "trace (createElementIfNotExists m s) =
                  trace s @ [InsertWidget (cellId m) i, CellUpdate (cellId m)]"
    by (simp add: gate_trace)
  show ?thesis
    unfolding recorded_created_def
  proof (intro allI impI)
    fix cid
    assume a: "cellWidgetMap (createElementIfNotExists m s) cid = Some True"
    show "\<exists>j. InsertWidget cid j \<in> set (trace (createElementIfNotExists m s))"
    proof (cases "cid = cellId m")
      case True
      then show ?thesis using t by auto
    next
      case False
      with a \<open>creatable m s\<close> have "cellWidgetMap s cid = Some True"
        by (simp add: gate_map assignTrue_def split: if_splits)
      with r obtain j where "InsertWidget cid j \<in> set (trace s)"
        unfolding recorded_created_def by blast
      then show ?thesis using t by auto
    qed
  qed
qed

lemma onSparkJobStart_recorded: "recorded_created s \<Longrightarrow> recorded_created (onSparkJobStart d s)"
proof (cases "activeCell s")
  case None
  then show "recorded_created s \<Longrightarrow> ?thesis" by (simp add: onSparkJobStart_def recorded_emit)
next
  case (Some c)
  assume "recorded_created s"
  then have "recorded_created (createElementIfNotExists (model c) s)" by (rule gate_recorded)
  then show ?thesis
    by (rule recorded_step) (auto simp: Some onSparkJobStart_def Let_def emit_fields)
qed

lemma onSparkStageSubmitted_recorded:
  "recorded_created s \<Longrightarrow> recorded_created (onSparkStageSubmitted d s)"
  by (simp add: onSparkStageSubmitted_def recorded_emit gate_recorded split: option.split)

lemma handleMessage_recorded:
  "recorded_created s \<Longrightarrow> recorded_created (snd (handleMessage P cd s))"
  by (simp add: handleMessage_def Let_def recorded_emit onSparkJobStart_recorded
      onSparkStageSubmitted_recorded split: option.split sum.split)

lemma startComm_then_recorded: "recorded_created s \<Longrightarrow> recorded_created (startComm_then s)"
  by (rule recorded_step [of s])
    (auto simp: startComm_then_def Let_def emit_def split: option.split)

lemma startComm_then_pow_recorded:
  "recorded_created s \<Longrightarrow> recorded_created ((startComm_then ^^ n) s)"
  by (induction n) (simp_all add: startComm_then_recorded)

lemma startComm_recorded: "recorded_created s \<Longrightarrow> recorded_created (startComm s)"
proof -
  assume r: "recorded_created s"
  let ?s1 = "emit [ConsoleLog ''SparkMonitor: Starting Comm with kernel.''] s"
  have e: "recorded_created ?s1" using r by (rule recorded_emit)
  show ?thesis
  proof (cases "trackerReady s")
    case True
    then show ?thesis using startComm_then_recorded [OF e] by (simp add: startComm_def emit_fields)
  next
    case False
    have "recorded_created (?s1\<lparr>pendingReady := pendingReady ?s1 + 1\<rparr>)"
      by (rule recorded_step [OF e]) simp_all
    then show ?thesis using False by (simp add: startComm_def emit_fields)
  qed
qed

lemma deliver_recorded:
  assumes "recorded_created s"
  shows "recorded_created (deliver (handleMessage P) e s)"
proof (cases e)
  case (CommMsg cd)
  then show ?thesis using assms by (simp add: handleMessage_recorded)
next
  case (StatusChanged st)
  have "recorded_created (s\<lparr>cellReexecuted := False\<rparr>)"
    by (rule recorded_step [OF assms]) simp_all
  then show ?thesis
    using StatusChanged assms by (simp add: statusChanged_def startComm_recorded)
next
  case (CellsChanged ty old)
  then show ?thesis using assms by (simp add: cellsChanged_def recorded_emit)
next
  case ToggleAll
  then show ?thesis using assms by (simp add: toggleAll_def recorded_emit)
next
  case (CellStarted c)
  have "recorded_created (onCellStarted c s)"
    by (rule recorded_step [OF assms]) (simp_all add: onCellStarted_def)
  then show ?thesis using CellStarted by simp
next
  case TrackerReady
  have "recorded_created (s\<lparr>trackerReady := True, pendingReady := 0\<rparr>)"
    by (rule recorded_step [OF assms]) simp_all
  then show ?thesis
    using TrackerReady assms by (simp add: trackerBecomesReady_def startComm_then_pow_recorded)
next
  case (NotebookChanged ws)
  have "recorded_created (s\<lparr>widgets := ws\<rparr>)"
    by (rule recorded_step [OF assms]) simp_all
  then show ?thesis using NotebookChanged by simp
next
  case (ReexecutionFlag b)
  have "recorded_created (s\<lparr>cellReexecuted := b\<rparr>)"
    by (rule recorded_step [OF assms]) simp_all
  then show ?thesis using ReexecutionFlag by simp
qed

lemma run_recorded:
  "recorded_created s \<Longrightarrow> recorded_created (run (handleMessage P) es s)"
  by (induction es arbitrary: s) (simp_all add: deliver_recorded)

lemma constructor_recorded: "recorded_created (constructor pid ws k r)"
  unfolding constructor_def by (rule startComm_recorded) (simp add: recorded_created_def)

lemma surface_before_forward:
  assumes r: "recorded_created s"
      and ty: "cellType m = ''code''"
      and w: "List.find (\<lambda>widget. model widget = m) (widgets s) = Some w"
      and root: "\<not> hasSparkRoot w"
  shows "\<exists>i. InsertWidget (cellId m) i \<in> set (trace s @ gate_effects m s)"
proof (cases "readsTrue (cellWidgetMap s) (cellId m)")
  case True
  then have "cellWidgetMap s (cellId m) = Some True" by (simp add: readsTrue_def)
  with r show ?thesis unfolding recorded_created_def by auto
next
  case False
  with ty w root have "creatable m s" by (simp add: creatable_def)
  with gate_effects_cases [of m s] show ?thesis by auto
qed

lemma gate_effects_update:
  "gate_effects m (s\<lparr>cellExecCountSinceSparkJobStart := n\<rparr>) = gate_effects m s"
  by (simp add: gate_effects_def createElementIfNotExists_def Let_def emit_def split: option.split)

lemma first_run_reach:
  "first_run = run (handleMessage sample_parse) [CellStarted sample_cell]
                 (constructor ''nb'' [sample_cell] (Some sample_kernel) True)"
  by (simp add: first_run_def sample_monitor_def)

lemma first_run_facts:
  "activeCell first_run = Some sample_cell"
  "numCellsExecuted first_run = 1"
  "cellExecCountSinceSparkJobStart first_run = 0"
  "surfaces_created (trace first_run) = 0"
  "sink_calls (trace first_run) = []"
  by (simp_all add: fixture_defs surfaces_created_def sink_calls_def)

lemma first_run_gate_effects:
  "gate_effects (model sample_cell) first_run = [InsertWidget ''c1'' 1, CellUpdate ''c1'']"
  "gate_effects_p000 (model sample_cell) first_run = [InsertWidget ''c1'' 0, CellUpdate ''c1'']"
  by (simp_all add: gate_effects_def gate_effects_p000_def createElementIfNotExists_def
      createElementIfNotExists_p000_def fixture_defs)

lemma sample_cell_id: "cellId (model sample_cell) = ''c1''"
  by (simp add: sample_cell_def)

lemma first_run_creatable:
  "creatable (model sample_cell) first_run"
  "creatable_p000 (model sample_cell) first_run"
  by (simp_all add: creatable_def creatable_p000_def fixture_defs)

lemma sample_monitor_reach:
  "sample_monitor = run (handleMessage sample_parse) []
                      (constructor ''nb'' [sample_cell] (Some sample_kernel) True)"
  by (simp add: sample_monitor_def)

lemma sample_monitor_facts:
  "activeCell sample_monitor = None"
  "comm sample_monitor = Some 0"
  "trackerReady sample_monitor"
  "kernel sample_monitor = Some (sample_kernel\<lparr>nextComm := 1\<rparr>)"
  "startComm_calls (trace sample_monitor) = 1"
  "sink_calls (trace sample_monitor) = []"
  by (simp_all add: sample_monitor_def constructor_def startComm_def startComm_then_def
      sample_kernel_def Let_def emit_def startComm_calls_def sink_calls_def)

lemma reexecuted_monitor_reach:
  "reexecuted_monitor = run (handleMessage sample_parse) [ReexecutionFlag True]
                          (constructor ''nb'' [sample_cell] (Some sample_kernel) True)"
  by (simp add: reexecuted_monitor_def sample_monitor_def)

lemma reexecuted_monitor_facts:
  "cellReexecuted reexecuted_monitor = True"
  "comm reexecuted_monitor = Some 0"
  "trackerReady reexecuted_monitor"
  "kernel reexecuted_monitor = Some (sample_kernel\<lparr>nextComm := 1\<rparr>)"
  "startComm_calls (trace reexecuted_monitor) = 1"
  by (simp_all add: reexecuted_monitor_def sample_monitor_facts)

lemma job_start_msg_is_job_start: "job_start_message sample_parse job_start_msg"
  by (simp add: job_start_message_def job_start_msg_def sample_parse_def job_start_data_def)

section \<open>Re-execution detection at a job start\<close>

text \<open>
  C1. When a job-start event is dispatched while a cell is active, the store receives
  \<^verbatim>\<open>onCellExecutedAgain\<close> for that cell, before the forwarded \<^verbatim>\<open>onSparkJobStart\<close>, if and
  only if the tracker's count is strictly greater than the saved counter, and the saved
  counter then becomes the count; otherwise only the event is forwarded and the saved
  counter stays. This holds in both files.
\<close>

theorem job_start_detects_reexecution:
  assumes "activeCell s = Some c"
  shows "sink_calls (trace (onSparkJobStart d s)) =
           sink_calls (trace s)
           @ (if numCellsExecuted s > cellExecCountSinceSparkJobStart s
              then [OnCellExecutedAgain (cellId (model c))] else [])
           @ [OnSparkJobStart (cellId (model c)) d]
       \<and> cellExecCountSinceSparkJobStart (onSparkJobStart d s) =
           (if numCellsExecuted s > cellExecCountSinceSparkJobStart s
            then numCellsExecuted s else cellExecCountSinceSparkJobStart s)
       \<and> sink_calls (trace (onSparkJobStart_p000 d s)) =
           sink_calls (trace s)
           @ (if numCellsExecuted s > cellExecCountSinceSparkJobStart s
              then [OnCellExecutedAgain (cellId (model c))] else [])
           @ [OnSparkJobStart (cellId (model c)) d]
       \<and> cellExecCountSinceSparkJobStart (onSparkJobStart_p000 d s) =
           (if numCellsExecuted s > cellExecCountSinceSparkJobStart s
            then numCellsExecuted s else cellExecCountSinceSparkJobStart s)"
proof -
  have a: "sink_calls (trace (onSparkJobStart d s)) =
           sink_calls (trace s)
           @ (if numCellsExecuted s > cellExecCountSinceSparkJobStart s
              then [OnCellExecutedAgain (cellId (model c))] else [])
           @ [OnSparkJobStart (cellId (model c)) d]"
    using assms
    by (simp add: onSparkJobStart_def Let_def emit_fields gate_frame gate_trace
        sink_calls_append gate_effects_sink sink_calls_simps)
  have b: "cellExecCountSinceSparkJobStart (onSparkJobStart d s) =
           (if numCellsExecuted s > cellExecCountSinceSparkJobStart s
            then numCellsExecuted s else cellExecCountSinceSparkJobStart s)"
    using assms by (simp add: onSparkJobStart_def Let_def emit_fields gate_frame)
  have c: "sink_calls (trace (onSparkJobStart_p000 d s)) =
           sink_calls (trace s)
           @ (if numCellsExecuted s > cellExecCountSinceSparkJobStart s
              then [OnCellExecutedAgain (cellId (model c))] else [])
           @ [OnSparkJobStart (cellId (model c)) d]"
    using assms
    by (simp add: onSparkJobStart_p000_def Let_def emit_fields gate_p000_frame gate_p000_trace
        sink_calls_append gate_effects_p000_sink sink_calls_simps)
  have d: "cellExecCountSinceSparkJobStart (onSparkJobStart_p000 d s) =
           (if numCellsExecuted s > cellExecCountSinceSparkJobStart s
            then numCellsExecuted s else cellExecCountSinceSparkJobStart s)"
    using assms by (simp add: onSparkJobStart_p000_def Let_def emit_fields gate_p000_frame)
  from a b c d show ?thesis by simp
qed

text \<open>
  The scenario of the claim: a job start was processed at count 1 (saved counter 1). At
  count 3 the next job start resets the cell and is then forwarded; at count 1 it is
  forwarded without a reset.
\<close>

theorem job_start_detects_reexecution_witness:
  "activeCell after_third_run = Some sample_cell
   \<and> numCellsExecuted after_third_run = 3
   \<and> cellExecCountSinceSparkJobStart after_third_run = 1
   \<and> sink_calls (trace (onSparkJobStart job_start_data after_third_run)) =
       sink_calls (trace after_third_run)
       @ [OnCellExecutedAgain ''c1'', OnSparkJobStart ''c1'' job_start_data]
   \<and> cellExecCountSinceSparkJobStart (onSparkJobStart job_start_data after_third_run) = 3
   \<and> activeCell after_first_job = Some sample_cell
   \<and> numCellsExecuted after_first_job = 1
   \<and> cellExecCountSinceSparkJobStart after_first_job = 1
   \<and> sink_calls (trace (onSparkJobStart job_start_data after_first_job)) =
       sink_calls (trace after_first_job) @ [OnSparkJobStart ''c1'' job_start_data]
   \<and> cellExecCountSinceSparkJobStart (onSparkJobStart job_start_data after_first_job) = 1"
  using job_start_detects_reexecution [of after_third_run sample_cell job_start_data]
    job_start_detects_reexecution [of after_first_job sample_cell job_start_data]
  by (simp add: after_first_job_facts after_third_run_facts sample_cell_def)

section \<open>The presentation gate and the forward\<close>

text \<open>
  C2, as amended. In \<^verbatim>\<open>jupyterlab-sparkmonitor.ts\<close>, for a job-start and for a
  stage-submitted event dispatched while a cell is active, every effect of the presentation
  gate comes before the calls on the store, and the gate itself calls nothing on the store;
  so in every state the monitor can reach, when the store receives the event for a code
  cell that has a live widget without an attached root, a surface has already been inserted
  for that cell. In \<^verbatim>\<open>part_000\<close> the order is the other one: the calls on the store come
  first and the effects of the gate follow them.
\<close>

theorem gate_effects_precede_forward:
  assumes reach: "s = run (handleMessage JSON_parse) es (constructor pid ws k r)"
      and act: "activeCell s = Some c"
  shows "trace (onSparkJobStart d s) =
           trace s @ gate_effects (model c) s
           @ map Store
               ((if cellExecCountSinceSparkJobStart s < numCellsExecuted s
                 then [OnCellExecutedAgain (cellId (model c))] else [])
                @ [OnSparkJobStart (cellId (model c)) d])
       \<and> trace (onSparkStageSubmitted d s) =
           trace s @ gate_effects (model c) s
           @ [Store (OnSparkStageSubmitted (cellId (model c)) d)]
       \<and> sink_calls (gate_effects (model c) s) = []
       \<and> (\<forall>w. cellType (model c) = ''code''
              \<and> List.find (\<lambda>widget. model widget = model c) (widgets s) = Some w
              \<and> \<not> hasSparkRoot w \<longrightarrow>
            (\<exists>i. InsertWidget (cellId (model c)) i \<in> set (trace s @ gate_effects (model c) s)))
       \<and> (activeCell s' = Some c \<longrightarrow>
            trace (onSparkJobStart_p000 d s') =
              trace s'
              @ map Store
                  ((if cellExecCountSinceSparkJobStart s' < numCellsExecuted s'
                    then [OnCellExecutedAgain (cellId (model c))] else [])
                   @ [OnSparkJobStart (cellId (model c)) d])
              @ gate_effects_p000 (model c) s'
          \<and> trace (onSparkStageSubmitted_p000 d s') =
              trace s' @ [Store (OnSparkStageSubmitted (cellId (model c)) d)]
              @ gate_effects_p000 (model c) s')"
proof -
  have job: "trace (onSparkJobStart d s) =
           trace s @ gate_effects (model c) s
           @ map Store
               ((if cellExecCountSinceSparkJobStart s < numCellsExecuted s
                 then [OnCellExecutedAgain (cellId (model c))] else [])
                @ [OnSparkJobStart (cellId (model c)) d])"
    using act by (simp add: onSparkJobStart_def Let_def emit_fields gate_frame gate_trace)
  have stage: "trace (onSparkStageSubmitted d s) =
           trace s @ gate_effects (model c) s
           @ [Store (OnSparkStageSubmitted (cellId (model c)) d)]"
    using act by (simp add: onSparkStageSubmitted_def emit_fields gate_trace)
  have "recorded_created s"
    unfolding reach by (rule run_recorded) (rule constructor_recorded)
  then have surf: "\<forall>w. cellType (model c) = ''code''
              \<and> List.find (\<lambda>widget. model widget = model c) (widgets s) = Some w
              \<and> \<not> hasSparkRoot w \<longrightarrow>
            (\<exists>i. InsertWidget (cellId (model c)) i \<in> set (trace s @ gate_effects (model c) s))"
    using surface_before_forward [of s "model c"] by blast
  have p000: "activeCell s' = Some c \<longrightarrow>
            trace (onSparkJobStart_p000 d s') =
              trace s'
              @ map Store
                  ((if cellExecCountSinceSparkJobStart s' < numCellsExecuted s'
                    then [OnCellExecutedAgain (cellId (model c))] else [])
                   @ [OnSparkJobStart (cellId (model c)) d])
              @ gate_effects_p000 (model c) s'
          \<and> trace (onSparkStageSubmitted_p000 d s') =
              trace s' @ [Store (OnSparkStageSubmitted (cellId (model c)) d)]
              @ gate_effects_p000 (model c) s'"
    by (simp add: onSparkJobStart_p000_def onSparkStageSubmitted_p000_def Let_def emit_fields
        gate_p000_trace gate_effects_p000_emit gate_effects_p000_update)
  from job stage surf p000 gate_effects_sink [of "model c" s] show ?thesis by blast
qed

theorem gate_effects_precede_forward_witness:
  "activeCell first_run = Some sample_cell
   \<and> trace (onSparkJobStart job_start_data first_run) =
       trace first_run
       @ [InsertWidget ''c1'' 1, CellUpdate ''c1'',
          Store (OnCellExecutedAgain ''c1''), Store (OnSparkJobStart ''c1'' job_start_data)]
   \<and> trace (onSparkStageSubmitted stage_submitted_data first_run) =
       trace first_run
       @ [InsertWidget ''c1'' 1, CellUpdate ''c1'',
          Store (OnSparkStageSubmitted ''c1'' stage_submitted_data)]
   \<and> trace (onSparkStageSubmitted_p000 stage_submitted_data first_run) =
       trace first_run
       @ [Store (OnSparkStageSubmitted ''c1'' stage_submitted_data),
          InsertWidget ''c1'' 0, CellUpdate ''c1'']"
  using gate_effects_precede_forward [where s = first_run and JSON_parse = sample_parse
      and es = "[CellStarted sample_cell]" and pid = "''nb''" and ws = "[sample_cell]"
      and k = "Some sample_kernel" and r = True and c = sample_cell and s' = first_run
      and d = job_start_data, OF first_run_reach]
    gate_effects_precede_forward [where s = first_run and JSON_parse = sample_parse
      and es = "[CellStarted sample_cell]" and pid = "''nb''" and ws = "[sample_cell]"
      and k = "Some sample_kernel" and r = True and c = sample_cell and s' = first_run
      and d = stage_submitted_data, OF first_run_reach]
  by (simp add: first_run_facts first_run_gate_effects) (simp add: sample_cell_def)

text \<open>
  The claim as stated fails on \<^verbatim>\<open>part_000\<close>: with the cell \<open>c1\<close> running and no
  surface created so far, the store receives the job start before the surface is inserted.
\<close>

theorem forward_precedes_gate_counterexample:
  "first_run = run (handleMessage_p000 sample_parse) [CellStarted sample_cell] sample_monitor
   \<and> activeCell first_run = Some sample_cell
   \<and> surfaces_created (trace first_run) = 0
   \<and> trace (onSparkJobStart_p000 job_start_data first_run) =
       trace first_run
       @ [Store (OnCellExecutedAgain ''c1''), Store (OnSparkJobStart ''c1'' job_start_data),
          InsertWidget ''c1'' 0, CellUpdate ''c1'']"
proof -
  have "first_run = run (handleMessage_p000 sample_parse) [CellStarted sample_cell] sample_monitor"
    by (simp add: first_run_def)
  moreover have "trace (onSparkJobStart_p000 job_start_data first_run) =
       trace first_run
       @ [Store (OnCellExecutedAgain ''c1''), Store (OnSparkJobStart ''c1'' job_start_data),
          InsertWidget ''c1'' 0, CellUpdate ''c1'']"
    by (simp add: first_run_facts onSparkJobStart_p000_def Let_def emit_fields gate_p000_trace
        gate_effects_p000_emit gate_effects_p000_update first_run_gate_effects sample_cell_id)
  ultimately show ?thesis by (simp add: first_run_facts)
qed

section \<open>A payload that does not decode\<close>

text \<open>
  C3, as amended. For a message with the envelope tag \<^verbatim>\<open>fromscala\<close> whose payload
  \<^verbatim>\<open>JSON.parse\<close> rejects, \<^verbatim>\<open>handleMessage\<close> calls nothing on the store, logs nothing
  and leaves the state as it was, and the SyntaxError leaves \<^verbatim>\<open>handleMessage\<close>: neither
  file catches it.
\<close>

theorem undecodable_payload_throws:
  assumes "map_of cd ''msgtype'' = Some (JStr ''fromscala'')"
      and "JSON_parse (map_of cd ''msg'') = None"
  shows "handleMessage JSON_parse cd s = (Some SyntaxError, s)
       \<and> handleMessage_p000 JSON_parse cd s = (Some SyntaxError, s)"
  using assms by (simp add: handleMessage_def handleMessage_p000_def)

theorem undecodable_payload_throws_witness:
  "map_of bad_payload_msg ''msgtype'' = Some (JStr ''fromscala'')
   \<and> sample_parse (map_of bad_payload_msg ''msg'') = None
   \<and> handleMessage sample_parse bad_payload_msg sample_monitor = (Some SyntaxError, sample_monitor)
   \<and> handleMessage_p000 sample_parse bad_payload_msg sample_monitor
       = (Some SyntaxError, sample_monitor)"
  using undecodable_payload_throws [of bad_payload_msg sample_parse sample_monitor]
  by (simp add: bad_payload_msg_def sample_parse_def)

text \<open>
  The claim as stated says that no exception leaves \<^verbatim>\<open>handleMessage\<close>; with the payload
  text \<^verbatim>\<open>{\<close> one does.
\<close>

theorem undecodable_payload_counterexample:
  "fst (handleMessage sample_parse bad_payload_msg sample_monitor) = Some SyntaxError
   \<and> fst (handleMessage_p000 sample_parse bad_payload_msg sample_monitor) = Some SyntaxError"
  by (simp add: handleMessage_def handleMessage_p000_def bad_payload_msg_def sample_parse_def)

section \<open>A stage-submitted event\<close>

text \<open>
  C4, as amended. For a stage-submitted event dispatched while a cell is active, the
  dispatcher invokes the presentation gate for the cell and forwards the event
  (\<^verbatim>\<open>jupyterlab-sparkmonitor.ts\<close>: gate, then forward; \<^verbatim>\<open>part_000\<close>: forward, then gate).
  It does not compare the execution counter, the store receives \<^verbatim>\<open>onSparkStageSubmitted\<close>
  and nothing else, and the saved counter is unchanged.
\<close>

theorem stage_submitted_only_forwards:
  assumes "activeCell s = Some c"
  shows "onSparkStageSubmitted d s =
           emit [Store (OnSparkStageSubmitted (cellId (model c)) d)]
             (createElementIfNotExists (model c) s)
       \<and> sink_calls (trace (onSparkStageSubmitted d s)) =
           sink_calls (trace s) @ [OnSparkStageSubmitted (cellId (model c)) d]
       \<and> cellExecCountSinceSparkJobStart (onSparkStageSubmitted d s) =
           cellExecCountSinceSparkJobStart s
       \<and> onSparkStageSubmitted_p000 d s =
           createElementIfNotExists_p000 (model c)
             (emit [Store (OnSparkStageSubmitted (cellId (model c)) d)] s)
       \<and> sink_calls (trace (onSparkStageSubmitted_p000 d s)) =
           sink_calls (trace s) @ [OnSparkStageSubmitted (cellId (model c)) d]
       \<and> cellExecCountSinceSparkJobStart (onSparkStageSubmitted_p000 d s) =
           cellExecCountSinceSparkJobStart s"
  using assms
  by (simp add: onSparkStageSubmitted_def onSparkStageSubmitted_p000_def emit_fields
      gate_trace gate_p000_trace gate_frame gate_p000_frame sink_calls_append
      gate_effects_sink gate_effects_p000_sink sink_calls_simps)

theorem stage_submitted_only_forwards_witness:
  "activeCell after_third_run = Some sample_cell
   \<and> sink_calls (trace (onSparkStageSubmitted stage_submitted_data after_third_run)) =
       sink_calls (trace after_third_run) @ [OnSparkStageSubmitted ''c1'' stage_submitted_data]
   \<and> cellExecCountSinceSparkJobStart (onSparkStageSubmitted stage_submitted_data after_third_run)
       = cellExecCountSinceSparkJobStart after_third_run
   \<and> sink_calls (trace (onSparkStageSubmitted_p000 stage_submitted_data after_third_run)) =
       sink_calls (trace after_third_run) @ [OnSparkStageSubmitted ''c1'' stage_submitted_data]"
proof -
  have a: "activeCell after_third_run = Some sample_cell"
    by (simp add: after_third_run_facts)
  from stage_submitted_only_forwards [OF a, of stage_submitted_data] a
  show ?thesis unfolding sample_cell_id by blast
qed

text \<open>
  The claim as stated asks for a reset when the count exceeds the saved counter: with the
  count at 3 and the saved counter at 1 the store receives no reset and the saved
  counter stays at 1.
\<close>

theorem stage_submitted_resets_counterexample:
  "activeCell after_third_run = Some sample_cell
   \<and> numCellsExecuted after_third_run = 3
   \<and> cellExecCountSinceSparkJobStart after_third_run = 1
   \<and> sink_calls (trace (onSparkStageSubmitted stage_submitted_data after_third_run)) =
       sink_calls (trace after_third_run) @ [OnSparkStageSubmitted ''c1'' stage_submitted_data]
   \<and> cellExecCountSinceSparkJobStart (onSparkStageSubmitted stage_submitted_data after_third_run) = 1"
  by (simp add: after_third_run_facts onSparkStageSubmitted_def emit_fields gate_trace gate_frame
      sink_calls_append gate_effects_sink sink_calls_simps sample_cell_id)

section \<open>No active cell\<close>

text \<open>
  C5. A job-start or stage-submitted event dispatched while \<^verbatim>\<open>getActiveCell()\<close> returns
  nothing logs one warning and does nothing else: the state differs from the one before
  in that warning only, so the store receives no call, no surface is created and the saved
  counter is unchanged; and \<^verbatim>\<open>handleMessage\<close> returns without an exception. This holds
  in both files.
\<close>

theorem no_active_cell_drops:
  assumes "activeCell s = None"
  shows "onSparkJobStart d s =
           emit [ConsoleWarn ''SparkMonitor: Job started with no running cell.''] s
       \<and> onSparkStageSubmitted d s =
           emit [ConsoleWarn ''SparkMonitor: Stage started with no running cell.''] s
       \<and> onSparkJobStart_p000 d s =
           emit [ConsoleWarn ''SparkMonitor: Job started with no running cell.''] s
       \<and> onSparkStageSubmitted_p000 d s =
           emit [ConsoleWarn ''SparkMonitor: Stage started with no running cell.''] s
       \<and> (\<forall>w. sink_calls (trace (emit [ConsoleWarn w] s)) = sink_calls (trace s)
            \<and> surfaces_created (trace (emit [ConsoleWarn w] s)) = surfaces_created (trace s)
            \<and> widgets (emit [ConsoleWarn w] s) = widgets s
            \<and> cellWidgetMap (emit [ConsoleWarn w] s) = cellWidgetMap s
            \<and> cellExecCountSinceSparkJobStart (emit [ConsoleWarn w] s)
                = cellExecCountSinceSparkJobStart s)
       \<and> (map_of cd ''msgtype'' = Some (JStr ''fromscala'')
            \<and> JSON_parse (map_of cd ''msg'') = Some d
            \<and> get_msgtype d = Inr (Some (JStr ''sparkJobStart'')) \<longrightarrow>
            handleMessage JSON_parse cd s =
              (None, emit [ConsoleWarn ''SparkMonitor: Job started with no running cell.''] s)
          \<and> handleMessage_p000 JSON_parse cd s =
              (None, emit [ConsoleWarn ''SparkMonitor: Job started with no running cell.''] s))
       \<and> (map_of cd ''msgtype'' = Some (JStr ''fromscala'')
            \<and> JSON_parse (map_of cd ''msg'') = Some d
            \<and> get_msgtype d = Inr (Some (JStr ''sparkStageSubmitted'')) \<longrightarrow>
            handleMessage JSON_parse cd s =
              (None, emit [ConsoleWarn ''SparkMonitor: Stage started with no running cell.''] s)
          \<and> handleMessage_p000 JSON_parse cd s =
              (None, emit [ConsoleWarn ''SparkMonitor: Stage started with no running cell.''] s))"
proof -
  have h: "onSparkJobStart d s =
             emit [ConsoleWarn ''SparkMonitor: Job started with no running cell.''] s"
    "onSparkStageSubmitted d s =
             emit [ConsoleWarn ''SparkMonitor: Stage started with no running cell.''] s"
    "onSparkJobStart_p000 d s =
             emit [ConsoleWarn ''SparkMonitor: Job started with no running cell.''] s"
    "onSparkStageSubmitted_p000 d s =
             emit [ConsoleWarn ''SparkMonitor: Stage started with no running cell.''] s"
    using assms
    by (simp_all add: onSparkJobStart_def onSparkStageSubmitted_def onSparkJobStart_p000_def
        onSparkStageSubmitted_p000_def)
  have f: "\<forall>w. sink_calls (trace (emit [ConsoleWarn w] s)) = sink_calls (trace s)
            \<and> surfaces_created (trace (emit [ConsoleWarn w] s)) = surfaces_created (trace s)
            \<and> widgets (emit [ConsoleWarn w] s) = widgets s
            \<and> cellWidgetMap (emit [ConsoleWarn w] s) = cellWidgetMap s
            \<and> cellExecCountSinceSparkJobStart (emit [ConsoleWarn w] s)
                = cellExecCountSinceSparkJobStart s"
    by (simp add: emit_fields sink_calls_append surfaces_created_append sink_calls_simps
        surfaces_created_simps)
  have j: "map_of cd ''msgtype'' = Some (JStr ''fromscala'')
            \<and> JSON_parse (map_of cd ''msg'') = Some d
            \<and> get_msgtype d = Inr (Some (JStr ''sparkJobStart'')) \<longrightarrow>
            handleMessage JSON_parse cd s =
              (None, emit [ConsoleWarn ''SparkMonitor: Job started with no running cell.''] s)
          \<and> handleMessage_p000 JSON_parse cd s =
              (None, emit [ConsoleWarn ''SparkMonitor: Job started with no running cell.''] s)"
    by (simp add: handleMessage_def handleMessage_p000_def h)
  have g: "map_of cd ''msgtype'' = Some (JStr ''fromscala'')
            \<and> JSON_parse (map_of cd ''msg'') = Some d
            \<and> get_msgtype d = Inr (Some (JStr ''sparkStageSubmitted'')) \<longrightarrow>
            handleMessage JSON_parse cd s =
              (None, emit [ConsoleWarn ''SparkMonitor: Stage started with no running cell.''] s)
          \<and> handleMessage_p000 JSON_parse cd s =
              (None, emit [ConsoleWarn ''SparkMonitor: Stage started with no running cell.''] s)"
    by (simp add: handleMessage_def handleMessage_p000_def h)
  from h f j g show ?thesis by blast
qed

theorem no_active_cell_drops_witness:
  "activeCell sample_monitor = None
   \<and> handleMessage sample_parse job_start_msg sample_monitor =
       (None, emit [ConsoleWarn ''SparkMonitor: Job started with no running cell.''] sample_monitor)
   \<and> onSparkStageSubmitted_p000 stage_submitted_data sample_monitor =
       emit [ConsoleWarn ''SparkMonitor: Stage started with no running cell.''] sample_monitor
   \<and> sink_calls (trace (onSparkJobStart job_start_data sample_monitor)) = []
   \<and> surfaces_created (trace (onSparkJobStart job_start_data sample_monitor)) = 0"
proof -
  have a: "activeCell sample_monitor = None" by (simp add: sample_monitor_facts)
  have m: "map_of job_start_msg ''msgtype'' = Some (JStr ''fromscala'')
           \<and> sample_parse (map_of job_start_msg ''msg'') = Some job_start_data
           \<and> get_msgtype job_start_data = Inr (Some (JStr ''sparkJobStart''))"
    by (simp add: job_start_msg_def sample_parse_def job_start_data_def)
  note j = no_active_cell_drops [OF a, of job_start_data job_start_msg sample_parse]
  note g = no_active_cell_drops [OF a, of stage_submitted_data]
  from j m have 0: "handleMessage sample_parse job_start_msg sample_monitor =
       (None, emit [ConsoleWarn ''SparkMonitor: Job started with no running cell.''] sample_monitor)"
    by blast
  from j have 1: "onSparkJobStart job_start_data sample_monitor =
       emit [ConsoleWarn ''SparkMonitor: Job started with no running cell.''] sample_monitor"
    by blast
  from g have 2: "onSparkStageSubmitted_p000 stage_submitted_data sample_monitor =
       emit [ConsoleWarn ''SparkMonitor: Stage started with no running cell.''] sample_monitor"
    by blast
  from j have 3: "sink_calls (trace (emit [ConsoleWarn ''SparkMonitor: Job started with no running cell.'']
                   sample_monitor)) = sink_calls (trace sample_monitor)"
    "surfaces_created (trace (emit [ConsoleWarn ''SparkMonitor: Job started with no running cell.'']
                   sample_monitor)) = surfaces_created (trace sample_monitor)"
    by blast+
  have 4: "surfaces_created (trace sample_monitor) = 0"
    by (simp add: sample_monitor_def constructor_def startComm_def startComm_then_def
      sample_kernel_def Let_def emit_def surfaces_created_def)
  from a 0 1 2 3 4 show ?thesis by (simp add: sample_monitor_facts)
qed

section \<open>Event kinds that are not forwarded\<close>

text \<open>
  C6. For a \<^verbatim>\<open>fromscala\<close> message whose payload decodes and has the discriminant \<open>t\<close>:
  when \<open>t\<close> is \<^verbatim>\<open>sparkApplicationEnd\<close>, \<^verbatim>\<open>handleMessage\<close> returns with the state
  unchanged; when \<open>t\<close> is none of the recognized kinds (also when it is missing or not a
  string), it returns with one warning logged and nothing else changed. In both cases
  the store receives no call and no exception is raised. This holds in both files.
\<close>

theorem non_forwarded_kinds:
  assumes "map_of cd ''msgtype'' = Some (JStr ''fromscala'')"
      and "JSON_parse (map_of cd ''msg'') = Some data"
      and "get_msgtype data = Inr t"
  shows "(t = Some (JStr ''sparkApplicationEnd'') \<longrightarrow>
            handleMessage JSON_parse cd s = (None, s)
          \<and> handleMessage_p000 JSON_parse cd s = (None, s))
       \<and> (t \<notin> set (map (\<lambda>k. Some (JStr k)) recognized_kinds) \<longrightarrow>
            handleMessage JSON_parse cd s =
              (None, emit [ConsoleWarn ''SparkMonitor: Unknown message''] s)
          \<and> handleMessage_p000 JSON_parse cd s =
              (None, emit [ConsoleWarn ''SparkMonitor: Unknown message''] s))"
  using assms
  by (simp add: handleMessage_def handleMessage_p000_def recognized_kinds_def)

theorem non_forwarded_kinds_witness:
  "handleMessage sample_parse application_end_msg sample_monitor = (None, sample_monitor)
   \<and> handleMessage_p000 sample_parse application_end_msg sample_monitor = (None, sample_monitor)
   \<and> handleMessage sample_parse spark_foo_msg sample_monitor =
       (None, emit [ConsoleWarn ''SparkMonitor: Unknown message''] sample_monitor)
   \<and> handleMessage_p000 sample_parse spark_foo_msg sample_monitor =
       (None, emit [ConsoleWarn ''SparkMonitor: Unknown message''] sample_monitor)"
  using non_forwarded_kinds [of application_end_msg sample_parse
          "JObj [(''msgtype'', JStr ''sparkApplicationEnd'')]"
          "Some (JStr ''sparkApplicationEnd'')" sample_monitor]
    non_forwarded_kinds [of spark_foo_msg sample_parse
          "JObj [(''msgtype'', JStr ''sparkFoo'')]" "Some (JStr ''sparkFoo'')" sample_monitor]
  by (simp add: application_end_msg_def spark_foo_msg_def sample_parse_def recognized_kinds_def)

section \<open>Envelopes with another tag\<close>

text \<open>
  C7, as amended. For a message whose envelope tag is not \<^verbatim>\<open>fromscala\<close>,
  \<^verbatim>\<open>handleMessage\<close> returns without an exception, calls nothing on the store and does
  not apply \<^verbatim>\<open>JSON.parse\<close> (the result is the same for every parser); it logs a warning
  only when the tag is falsy (missing, \<^verbatim>\<open>null\<close>, \<^verbatim>\<open>false\<close>, \<open>0\<close> or the empty
  string), and nothing when the tag is any other value.
\<close>

theorem other_envelopes_discarded:
  assumes "map_of cd ''msgtype'' \<noteq> Some (JStr ''fromscala'')"
  shows "handleMessage JSON_parse cd s =
           (None, if truthy (map_of cd ''msgtype'') then s
                  else emit [ConsoleWarn ''SparkMonitor: Unknown message''] s)
       \<and> handleMessage_p000 JSON_parse cd s =
           (None, if truthy (map_of cd ''msgtype'') then s
                  else emit [ConsoleWarn ''SparkMonitor: Unknown message''] s)"
  using assms by (simp add: handleMessage_def handleMessage_p000_def)

theorem other_envelopes_discarded_witness:
  "map_of other_envelope_msg ''msgtype'' \<noteq> Some (JStr ''fromscala'')
   \<and> handleMessage sample_parse other_envelope_msg sample_monitor = (None, sample_monitor)
   \<and> handleMessage_p000 sample_parse other_envelope_msg sample_monitor = (None, sample_monitor)
   \<and> map_of [(''msg'', JStr ''{'')] ''msgtype'' \<noteq> Some (JStr ''fromscala'')
   \<and> handleMessage sample_parse [(''msg'', JStr ''{'')] sample_monitor =
       (None, emit [ConsoleWarn ''SparkMonitor: Unknown message''] sample_monitor)
   \<and> handleMessage_p000 sample_parse [(''msg'', JStr ''{'')] sample_monitor =
       (None, emit [ConsoleWarn ''SparkMonitor: Unknown message''] sample_monitor)"
  using other_envelopes_discarded [of other_envelope_msg sample_parse sample_monitor]
    other_envelopes_discarded [of "[(''msg'', JStr ''{'')]" sample_parse sample_monitor]
  by (simp add: other_envelope_msg_def)

text \<open>
  The claim as stated says that a warning is logged for every such message; for the tag
  \<^verbatim>\<open>fromjava\<close> the trace is unchanged.
\<close>

theorem other_envelopes_counterexample:
  "map_of other_envelope_msg ''msgtype'' \<noteq> Some (JStr ''fromscala'')
   \<and> trace (snd (handleMessage sample_parse other_envelope_msg sample_monitor))
       = trace sample_monitor
   \<and> trace (snd (handleMessage_p000 sample_parse other_envelope_msg sample_monitor))
       = trace sample_monitor"
  by (simp add: handleMessage_def handleMessage_p000_def other_envelope_msg_def)

section \<open>Restart of the kernel\<close>

text \<open>
  C8. From every state, whatever the re-execution flag holds, the status \<^verbatim>\<open>starting\<close>
  sets the flag of the tracker to false and calls \<^verbatim>\<open>startComm\<close> exactly once more, both
  for the handler and for the status event of the event loop; with the tracker ready, the
  comm field then holds the object the kernel has just made (or nothing, when it made
  none), and in every state the monitor can reach that is not the object the field held
  before. Any other status changes nothing.
\<close>

theorem restart_reopens_channel:
  "(st \<noteq> ''starting'' \<longrightarrow> statusChanged st s = s \<and> deliver H (StatusChanged st) s = s)
   \<and> statusChanged ''starting'' s = startComm (s\<lparr>cellReexecuted := False\<rparr>)
   \<and> cellReexecuted (statusChanged ''starting'' s) = False
   \<and> startComm_calls (trace (statusChanged ''starting'' s)) = Suc (startComm_calls (trace s))
   \<and> (kernel s \<noteq> None \<longrightarrow>
        cellReexecuted (deliver H (StatusChanged ''starting'') s) = False
      \<and> startComm_calls (trace (deliver H (StatusChanged ''starting'') s))
          = Suc (startComm_calls (trace s)))
   \<and> (\<forall>k. trackerReady s \<and> kernel s = Some k \<longrightarrow>
        comm (deliver H (StatusChanged ''starting'') s) =
          (if suppliesComm k then Some (nextComm k) else None))
   \<and> (\<forall>k. (H = handleMessage P \<or> H = handleMessage_p000 P)
          \<and> s = run H es (constructor pid ws k0 r) \<and> kernel s = Some k \<longrightarrow>
        comm s \<noteq> Some (nextComm k))"
proof -
  have other: "st \<noteq> ''starting'' \<longrightarrow> statusChanged st s = s \<and> deliver H (StatusChanged st) s = s"
    by (simp add: statusChanged_def)
  have call: "statusChanged ''starting'' s = startComm (s\<lparr>cellReexecuted := False\<rparr>)"
    by (simp add: statusChanged_def)
  have flag: "cellReexecuted (statusChanged ''starting'' s) = False"
    by (simp add: statusChanged_def startComm_frame)
  have opens: "startComm_calls (trace (statusChanged ''starting'' s)) = Suc (startComm_calls (trace s))"
    by (simp add: statusChanged_def startComm_frame)
  have ev: "kernel s \<noteq> None \<longrightarrow>
        cellReexecuted (deliver H (StatusChanged ''starting'') s) = False
      \<and> startComm_calls (trace (deliver H (StatusChanged ''starting'') s))
          = Suc (startComm_calls (trace s))"
    using flag opens by simp
  have new: "\<forall>k. trackerReady s \<and> kernel s = Some k \<longrightarrow>
        comm (deliver H (StatusChanged ''starting'') s) =
          (if suppliesComm k then Some (nextComm k) else None)"
    by (simp add: statusChanged_def startComm_def startComm_then_def Let_def emit_def)
  have old: "\<forall>k. (H = handleMessage P \<or> H = handleMessage_p000 P)
          \<and> s = run H es (constructor pid ws k0 r) \<and> kernel s = Some k \<longrightarrow>
        comm s \<noteq> Some (nextComm k)"
  proof (intro allI impI)
    fix k
    assume a: "(H = handleMessage P \<or> H = handleMessage_p000 P)
          \<and> s = run H es (constructor pid ws k0 r) \<and> kernel s = Some k"
    then have "handles_fresh (run H es (constructor pid ws k0 r))"
      using run_fresh [of H P "constructor pid ws k0 r" es] constructor_fresh by blast
    with a have "handles_fresh s" by simp
    with a show "comm s \<noteq> Some (nextComm k)"
      by (auto simp: handles_fresh_def split: option.splits)
  qed
  from other call flag opens ev new old show ?thesis by blast
qed

text \<open>
  The monitor after the tracker has set its flag: the flag is true before the status
  \<^verbatim>\<open>starting\<close> and false after it, \<^verbatim>\<open>startComm\<close> has run a second time, and the comm
  object \<open>0\<close> has been replaced by the object \<open>1\<close>; the status \<^verbatim>\<open>busy\<close> changes nothing.
\<close>

theorem restart_reopens_channel_witness:
  "reexecuted_monitor = run (handleMessage sample_parse) [ReexecutionFlag True]
                          (constructor ''nb'' [sample_cell] (Some sample_kernel) True)
   \<and> cellReexecuted reexecuted_monitor = True
   \<and> comm reexecuted_monitor = Some 0
   \<and> startComm_calls (trace reexecuted_monitor) = 1
   \<and> deliver (handleMessage sample_parse) (StatusChanged ''busy'') reexecuted_monitor
       = reexecuted_monitor
   \<and> cellReexecuted
        (deliver (handleMessage sample_parse) (StatusChanged ''starting'') reexecuted_monitor)
       = False
   \<and> startComm_calls
        (trace (deliver (handleMessage sample_parse) (StatusChanged ''starting'') reexecuted_monitor))
       = 2
   \<and> comm (deliver (handleMessage sample_parse) (StatusChanged ''starting'') reexecuted_monitor)
       = Some 1"
proof -
  have b: "''busy'' \<noteq> ''starting''" by simp
  have k: "kernel reexecuted_monitor \<noteq> None" by (simp add: reexecuted_monitor_facts)
  have h: "handleMessage sample_parse = handleMessage sample_parse
           \<or> handleMessage sample_parse = handleMessage_p000 sample_parse" by simp
  note t = restart_reopens_channel [where s = reexecuted_monitor
      and H = "handleMessage sample_parse" and P = sample_parse and st = "''busy''"
      and es = "[ReexecutionFlag True]" and pid = "''nb''" and ws = "[sample_cell]"
      and ?k0.0 = "Some sample_kernel" and r = True]
  from t b have 1: "deliver (handleMessage sample_parse) (StatusChanged ''busy'') reexecuted_monitor
                      = reexecuted_monitor" by blast
  from t k have 2: "cellReexecuted
        (deliver (handleMessage sample_parse) (StatusChanged ''starting'') reexecuted_monitor)
       = False" by blast
  from t k have 3: "startComm_calls
        (trace (deliver (handleMessage sample_parse) (StatusChanged ''starting'') reexecuted_monitor))
       = Suc (startComm_calls (trace reexecuted_monitor))" by blast
  from t reexecuted_monitor_facts(3,4)
  have 4: "comm (deliver (handleMessage sample_parse) (StatusChanged ''starting'') reexecuted_monitor) =
             (if suppliesComm (sample_kernel\<lparr>nextComm := 1\<rparr>)
              then Some (nextComm (sample_kernel\<lparr>nextComm := 1\<rparr>)) else None)" by blast
  from t h reexecuted_monitor_reach reexecuted_monitor_facts(4)
  have 5: "comm reexecuted_monitor \<noteq> Some (nextComm (sample_kernel\<lparr>nextComm := 1\<rparr>))" by blast
  from 1 2 3 4 5 reexecuted_monitor_reach show ?thesis
    by (simp add: reexecuted_monitor_facts sample_kernel_def)
qed

section \<open>Idempotence of the presentation gate\<close>

text \<open>
  C9. The claim asks that any number of calls of the presentation gate for one cell
  create exactly one surface. \<^verbatim>\<open>jupyterlab-sparkmonitor.ts\<close> does not do that for the
  cell id \<^verbatim>\<open>__proto__\<close>: the assignment to \<^verbatim>\<open>cellWidgetMap\<close> stores nothing, so the map
  never records the cell. In the notebook with that one code cell, rendered without a
  root, the first call inserts a widget and the second call inserts another one: the
  trace has two insertions, the layout of the cell holds two monitor widgets, and the map
  is still empty. The same happens when the two calls come from two job-start messages
  of the event loop. With the cell id \<open>c1\<close> the second call changes nothing, and the
  gate of \<^verbatim>\<open>part_000\<close>, which looks at the layout, inserts one widget for \<^verbatim>\<open>__proto__\<close>.
\<close>

theorem gate_inserts_twice_at_proto:
  "cellId (model proto_cell) = ''__proto__''
   \<and> surfaces_created (trace proto_monitor) = 0
   \<and> surfaces_created (trace (createElementIfNotExists (model proto_cell) proto_monitor)) = 1
   \<and> surfaces_created
        (trace (createElementIfNotExists (model proto_cell)
                 (createElementIfNotExists (model proto_cell) proto_monitor))) = 2
   \<and> map layout
        (widgets (createElementIfNotExists (model proto_cell)
                   (createElementIfNotExists (model proto_cell) proto_monitor))) =
       [[\<lparr>classes = [''jp-Cell-header''], element = None\<rparr>,
         \<lparr>classes = [''spark-monitor-cell-widget''], element = Some (''nb'', ''__proto__'')\<rparr>,
         \<lparr>classes = [''spark-monitor-cell-widget''], element = Some (''nb'', ''__proto__'')\<rparr>,
         \<lparr>classes = [''jp-Cell-inputWrapper''], element = None\<rparr>,
         \<lparr>classes = [''jp-Cell-outputWrapper''], element = None\<rparr>]]
   \<and> cellWidgetMap (createElementIfNotExists (model proto_cell)
                      (createElementIfNotExists (model proto_cell) proto_monitor)) = Map.empty
   \<and> surfaces_created
        (trace (run (handleMessage sample_parse)
                 [CellStarted proto_cell, CommMsg job_start_msg, CommMsg job_start_msg]
                 proto_monitor)) = 2
   \<and> createElementIfNotExists (model sample_cell)
        (createElementIfNotExists (model sample_cell) sample_monitor)
       = createElementIfNotExists (model sample_cell) sample_monitor
   \<and> surfaces_created (trace (createElementIfNotExists (model sample_cell) sample_monitor)) = 1
   \<and> surfaces_created
        (trace (createElementIfNotExists_p000 (model proto_cell)
                 (createElementIfNotExists_p000 (model proto_cell) proto_monitor))) = 1"
proof -
  have id: "cellId (model proto_cell) = ''__proto__''" by (simp add: proto_cell_def)
  have s0: "surfaces_created (trace proto_monitor) = 0"
    by (simp add: proto_monitor_def fixture_defs surfaces_created_def)
  have once: "createElementIfNotExists (model proto_cell) proto_monitor = proto_once"
    by (simp add: proto_once_def)
  have s1: "surfaces_created (trace proto_once) = 1"
    by (simp add: proto_once_def proto_monitor_def proto_cell_def fixture_defs
        surfaces_created_def findIndex.simps)
  have s2: "surfaces_created (trace (createElementIfNotExists (model proto_cell) proto_once)) = 2"
    by (simp add: proto_once_def proto_monitor_def proto_cell_def fixture_defs
        surfaces_created_def findIndex.simps)
  have lay: "map layout (widgets (createElementIfNotExists (model proto_cell) proto_once)) =
       [[\<lparr>classes = [''jp-Cell-header''], element = None\<rparr>,
         \<lparr>classes = [''spark-monitor-cell-widget''], element = Some (''nb'', ''__proto__'')\<rparr>,
         \<lparr>classes = [''spark-monitor-cell-widget''], element = Some (''nb'', ''__proto__'')\<rparr>,
         \<lparr>classes = [''jp-Cell-inputWrapper''], element = None\<rparr>,
         \<lparr>classes = [''jp-Cell-outputWrapper''], element = None\<rparr>]]"
    by (simp add: proto_once_def proto_monitor_def proto_cell_def fixture_defs findIndex.simps)
  have dict: "cellWidgetMap (createElementIfNotExists (model proto_cell) proto_once) = Map.empty"
    by (simp add: proto_once_def proto_monitor_def proto_cell_def fixture_defs findIndex.simps)
  have loop: "surfaces_created
        (trace (run (handleMessage sample_parse)
                 [CellStarted proto_cell, CommMsg job_start_msg, CommMsg job_start_msg]
                 proto_monitor)) = 2"
    by (simp add: proto_monitor_def proto_cell_def fixture_defs surfaces_created_def
        findIndex.simps)
  have c1: "createElementIfNotExists (model sample_cell)
        (createElementIfNotExists (model sample_cell) sample_monitor)
       = createElementIfNotExists (model sample_cell) sample_monitor"
    by (rule gate_idem) (simp add: sample_cell_def)
  have c1n: "surfaces_created (trace (createElementIfNotExists (model sample_cell) sample_monitor)) = 1"
    by (simp add: fixture_defs surfaces_created_def findIndex.simps)
  have p0: "surfaces_created
        (trace (createElementIfNotExists_p000 (model proto_cell)
                 (createElementIfNotExists_p000 (model proto_cell) proto_monitor))) = 1"
    by (simp add: gate_p000_idem)
      (simp add: createElementIfNotExists_p000_def proto_monitor_def proto_cell_def fixture_defs
        surfaces_created_def)
  from id s0 s1 s2 lay dict loop c1 c1n p0 show ?thesis by (simp add: once)
qed

section \<open>The saved counter never decreases\<close>

text \<open>
  C10. The saved counter is \<open>0\<close> after the constructor and never decreases, over one
  event and over any sequence of events. An event changes it only when it is a job-start
  message delivered while a cell is active and the tracker's count is strictly greater
  than the saved counter, and then the saved counter becomes that count. This holds
  with the message handler of either file.
\<close>

theorem saved_counter_monotone:
  assumes "H = handleMessage P \<or> H = handleMessage_p000 P"
  shows "cellExecCountSinceSparkJobStart (constructor pid ws k r) = 0
       \<and> cellExecCountSinceSparkJobStart s \<le> cellExecCountSinceSparkJobStart (run H es s)
       \<and> cellExecCountSinceSparkJobStart s \<le> cellExecCountSinceSparkJobStart (deliver H e s)
       \<and> (cellExecCountSinceSparkJobStart (deliver H e s) \<noteq> cellExecCountSinceSparkJobStart s \<longrightarrow>
            (\<exists>cd. e = CommMsg cd \<and> job_start_message P cd)
          \<and> activeCell s \<noteq> None
          \<and> cellExecCountSinceSparkJobStart s < numCellsExecuted s
          \<and> cellExecCountSinceSparkJobStart (deliver H e s) = numCellsExecuted s)"
proof -
  have init: "cellExecCountSinceSparkJobStart (constructor pid ws k r) = 0"
    by (simp add: constructor_def startComm_frame)
  have step: "cellExecCountSinceSparkJobStart s \<le> cellExecCountSinceSparkJobStart (deliver H e s)"
    by (simp add: deliver_saved [OF assms])
  have only: "cellExecCountSinceSparkJobStart (deliver H e s) \<noteq> cellExecCountSinceSparkJobStart s \<longrightarrow>
            (\<exists>cd. e = CommMsg cd \<and> job_start_message P cd)
          \<and> activeCell s \<noteq> None
          \<and> cellExecCountSinceSparkJobStart s < numCellsExecuted s
          \<and> cellExecCountSinceSparkJobStart (deliver H e s) = numCellsExecuted s"
    by (simp add: deliver_saved [OF assms])
  from init step only run_saved_mono [OF assms, of s es] show ?thesis by blast
qed

theorem saved_counter_monotone_witness:
  "cellExecCountSinceSparkJobStart (constructor ''nb'' [sample_cell] (Some sample_kernel) True) = 0
   \<and> cellExecCountSinceSparkJobStart first_run = 0
   \<and> job_start_message sample_parse job_start_msg
   \<and> cellExecCountSinceSparkJobStart
        (deliver (handleMessage sample_parse) (CommMsg job_start_msg) first_run) = 1
   \<and> cellExecCountSinceSparkJobStart first_run
        \<le> cellExecCountSinceSparkJobStart
            (run (handleMessage sample_parse) [CommMsg job_start_msg, ToggleAll] first_run)"
proof -
  have h: "handleMessage sample_parse = handleMessage sample_parse
           \<or> handleMessage sample_parse = handleMessage_p000 sample_parse" by simp
  note t = saved_counter_monotone [OF h, where pid = "''nb''" and ws = "[sample_cell]"
      and k = "Some sample_kernel" and r = True and s = first_run
      and e = "CommMsg job_start_msg" and es = "[CommMsg job_start_msg, ToggleAll]"]
  from t have 1: "cellExecCountSinceSparkJobStart
                    (constructor ''nb'' [sample_cell] (Some sample_kernel) True) = 0" by blast
  from t have 2: "cellExecCountSinceSparkJobStart first_run
        \<le> cellExecCountSinceSparkJobStart
            (run (handleMessage sample_parse) [CommMsg job_start_msg, ToggleAll] first_run)"
    by blast
  have 3: "cellExecCountSinceSparkJobStart
        (deliver (handleMessage sample_parse) (CommMsg job_start_msg) first_run) = 1"
    by (simp add: handleMessage_saved job_start_msg_is_job_start first_run_facts)
  from 1 2 3 show ?thesis by (simp add: first_run_facts job_start_msg_is_job_start)
qed

end
